theory Spec2Isabelle
  imports Complex_Main "HOL-Library.Multiset"
begin

section \<open>JavaScript values and string primitives\<close>

text \<open>
  The values that travel through the MCPP core are JSON values, plus \<open>undefined\<close> for a
  missing property or an out-of-range array read. Numbers are modelled by integers:
  non-integral numbers are outside the model. Objects are association lists, in
  property order. Strings are lists of 8-bit characters; the character classes of the
  patterns below are ASCII.
\<close>

datatype json =
    JUndefined
  | JNull
  | JBool bool
  | JNum int
  | JStr string
  | JArr "json list"
  | JObj "(string \<times> json) list"

text \<open>JavaScript truthiness, as used by \<open>!x\<close>, \<open>x && y\<close> and \<open>x || y\<close>.\<close>

fun truthy :: "json \<Rightarrow> bool" where
  "truthy JUndefined = False"
| "truthy JNull = False"
| "truthy (JBool b) = b"
| "truthy (JNum n) = (n \<noteq> 0)"
| "truthy (JStr s) = (s \<noteq> [])"
| "truthy (JArr xs) = True"
| "truthy (JObj kvs) = True"

definition digit_char :: "nat \<Rightarrow> char" where
  "digit_char d = ''0123456789'' ! d"

text \<open>The decimal digits of a natural number, and \<open>String(n)\<close> for an integral number.\<close>

fun decimal :: "nat \<Rightarrow> string" where
  "decimal n = (if 10 \<le> n then decimal (n div 10) else []) @ [digit_char (n mod 10)]"

declare decimal.simps [simp del]

definition number_text :: "int \<Rightarrow> string" where
  "number_text i = (if 0 \<le> i then decimal (nat i) else CHR ''-'' # decimal (nat (- i)))"

fun join :: "string \<Rightarrow> string list \<Rightarrow> string" where
  "join sep [] = []"
| "join sep [x] = x"
| "join sep (x # y # ys) = x @ sep @ join sep (y # ys)"

text \<open>
  \<open>String(v)\<close>: an array is the comma-join of its elements with \<open>null\<close> and
  \<open>undefined\<close> rendered empty; any plain object is \<open>[object Object]\<close>.
\<close>

fun js_String :: "json \<Rightarrow> string" where
  "js_String JUndefined = ''undefined''"
| "js_String JNull = ''null''"
| "js_String (JBool b) = (if b then ''true'' else ''false'')"
| "js_String (JNum n) = number_text n"
| "js_String (JStr s) = s"
| "js_String (JArr xs) =
     join '','' (map (\<lambda>x. if x = JNull \<or> x = JUndefined then [] else js_String x) xs)"
| "js_String (JObj kvs) = ''[object Object]''"

text \<open>\<open>toLowerCase\<close> on the ASCII letters.\<close>

definition lower_char :: "char \<Rightarrow> char" where
  "lower_char c =
     (case map_of (zip ''ABCDEFGHIJKLMNOPQRSTUVWXYZ'' ''abcdefghijklmnopqrstuvwxyz'') c of
        Some l \<Rightarrow> l
      | None \<Rightarrow> c)"

definition toLowerCase :: "string \<Rightarrow> string" where
  "toLowerCase s = map lower_char s"

definition startsWith :: "string \<Rightarrow> string \<Rightarrow> bool" where
  "startsWith s p = (take (length p) s = p)"

definition endsWith :: "string \<Rightarrow> string \<Rightarrow> bool" where
  "endsWith s suf = (length suf \<le> length s \<and> drop (length s - length suf) s = suf)"

text \<open>\<open>s.indexOf(p)\<close> on strings: the first position where \<open>p\<close> occurs.\<close>

fun find_sub :: "string \<Rightarrow> string \<Rightarrow> nat option" where
  "find_sub p [] = (if p = [] then Some 0 else None)"
| "find_sub p (c # cs) =
     (if startsWith (c # cs) p then Some 0 else map_option Suc (find_sub p cs))"

definition includes_str :: "string \<Rightarrow> string \<Rightarrow> bool" where
  "includes_str s p = (find_sub p s \<noteq> None)"

text \<open>\<open>xs.indexOf(x)\<close> on arrays: \<open>None\<close> stands for \<open>-1\<close>.\<close>

fun indexOf :: "'a list \<Rightarrow> 'a \<Rightarrow> nat option" where
  "indexOf [] x = None"
| "indexOf (y # ys) x = (if y = x then Some 0 else map_option Suc (indexOf ys x))"

text \<open>\<open>s.split(d)\<close> for a one-character separator.\<close>

fun split_on :: "char \<Rightarrow> string \<Rightarrow> string list" where
  "split_on d [] = [[]]"
| "split_on d (c # cs) =
     (if c = d then [] # split_on d cs
      else (case split_on d cs of p # ps \<Rightarrow> (c # p) # ps | [] \<Rightarrow> [[c]]))"

definition is_digit :: "char \<Rightarrow> bool" where
  "is_digit c = (let n = (of_char c :: nat) in 48 \<le> n \<and> n \<le> 57)"

definition js_whitespace :: "char \<Rightarrow> bool" where
  "js_whitespace c = (let n = (of_char c :: nat) in n = 32 \<or> (9 \<le> n \<and> n \<le> 13))"

definition digits_value :: "string \<Rightarrow> nat" where
  "digits_value ds = foldl (\<lambda>a c. 10 * a + (of_char c - 48)) 0 ds"

text \<open>
  \<open>parseInt(s, 10)\<close>: leading white space, an optional sign, then the longest run of
  decimal digits; \<open>None\<close> stands for \<open>NaN\<close>. The value is exact, as the
  floating-point result is for every number in the index range of an array.
\<close>

definition parseInt10 :: "string \<Rightarrow> int option" where
  "parseInt10 s =
     (let s1 = dropWhile js_whitespace s;
          neg = (s1 \<noteq> [] \<and> hd s1 = CHR ''-'');
          s2 = (if s1 \<noteq> [] \<and> (hd s1 = CHR ''-'' \<or> hd s1 = CHR ''+'') then tl s1 else s1);
          ds = takeWhile is_digit s2
      in if ds = [] then None
         else Some (if neg then - int (digits_value ds) else int (digits_value ds)))"

section \<open>The data cache\<close>

text \<open>
  \<open>dataCache\<close> is a \<open>Map<string, any>\<close>; its entries are the standardized payloads
  \<open>{type, payload}\<close>. The association list keeps the insertion order that
  \<open>dataCache.keys()\<close> reports.
\<close>

datatype CachedData =
    Table (headers: "string list") (rows: "json list list")
  | Text string
  | Json json

type_synonym cache = "(string \<times> CachedData) list"

definition cache_get :: "cache \<Rightarrow> string \<Rightarrow> CachedData option" where
  "cache_get c k = map_of c k"

definition cache_keys :: "cache \<Rightarrow> string list" where
  "cache_keys c = map fst c"

text \<open>The cached entry as the JavaScript object it is.\<close>

fun cached_json :: "CachedData \<Rightarrow> json" where
  "cached_json (Table hs rs) =
     JObj [(''type'', JStr ''table''),
           (''payload'', JObj [(''headers'', JArr (map JStr hs)), (''rows'', JArr (map JArr rs))])]"
| "cached_json (Text s) = JObj [(''type'', JStr ''text''), (''payload'', JStr s)]"
| "cached_json (Json v) = JObj [(''type'', JStr ''json''), (''payload'', v)]"

section \<open>Placeholders (mcpp-placeholders.ts)\<close>

text \<open>The character class \<open>[a-zA-Z0-9_\-]\<close>.\<close>

definition idchar :: "char \<Rightarrow> bool" where
  "idchar c =
     (let n = (of_char c :: nat)
      in (97 \<le> n \<and> n \<le> 122) \<or> (65 \<le> n \<and> n \<le> 90) \<or> (48 \<le> n \<and> n \<le> 57) \<or> n = 95 \<or> n = 45)"

text \<open>A greedy \<open>[class]+\<close>: the longest non-empty run, and what follows it.\<close>

definition take_run :: "(char \<Rightarrow> bool) \<Rightarrow> string \<Rightarrow> (string \<times> string) option" where
  "take_run P s = (if takeWhile P s = [] then None else Some (takeWhile P s, dropWhile P s))"

definition expect :: "char \<Rightarrow> string \<Rightarrow> string option" where
  "expect c s = (case s of [] \<Rightarrow> None | x # xs \<Rightarrow> if x = c then Some xs else None)"

text \<open>
  \<open>PLACEHOLDER_REGEX = /\{([a-zA-Z0-9_\-]+\.[0-9]+\.[a-zA-Z0-9_\-]+)\}/\<close> tried at the
  start of a string: the captured group and the rest of the string. No class contains
  the character that must follow it, so the greedy runs never backtrack.
\<close>

definition match_placeholder :: "string \<Rightarrow> (string \<times> string) option" where
  "match_placeholder s =
     (case expect CHR ''{'' s of None \<Rightarrow> None | Some s1 \<Rightarrow>
      case take_run idchar s1 of None \<Rightarrow> None | Some (a, s2) \<Rightarrow>
      case expect CHR ''.'' s2 of None \<Rightarrow> None | Some s3 \<Rightarrow>
      case take_run is_digit s3 of None \<Rightarrow> None | Some (r, s4) \<Rightarrow>
      case expect CHR ''.'' s4 of None \<Rightarrow> None | Some s5 \<Rightarrow>
      case take_run idchar s5 of None \<Rightarrow> None | Some (c, s6) \<Rightarrow>
      case expect CHR ''}'' s6 of None \<Rightarrow> None | Some rest \<Rightarrow>
        Some (a @ ''.'' @ r @ ''.'' @ c, rest))"

text \<open>\<open>SINGLE_PLACEHOLDER_REGEX\<close>: the same pattern between \<open>^\<close> and \<open>$\<close>.\<close>

definition single_match :: "string \<Rightarrow> string option" where
  "single_match s =
     (case match_placeholder s of
        Some (inner, rest) \<Rightarrow> if rest = [] then Some inner else None
      | None \<Rightarrow> None)"

text \<open>
  \<open>s.replace(PLACEHOLDER_REGEX, f)\<close> with the global flag: scan from the left, call
  \<open>f match group\<close> on every match and go on after it.
\<close>

function replace_placeholders :: "(string \<Rightarrow> string \<Rightarrow> string) \<Rightarrow> string \<Rightarrow> string" where
  "replace_placeholders f [] = []"
| "replace_placeholders f (c # cs) =
     (case match_placeholder (c # cs) of
        Some (inner, rest) \<Rightarrow> f (''{'' @ inner @ ''}'') inner @ replace_placeholders f rest
      | None \<Rightarrow> c # replace_placeholders f cs)"
  by pat_completeness auto
termination
proof (relation "measure (\<lambda>(f, s). length s)")
  show "wf (measure (\<lambda>(f :: string \<Rightarrow> string \<Rightarrow> string, s :: string). length s))"
    by simp
next
  fix f :: "string \<Rightarrow> string \<Rightarrow> string" and c cs
  assume "match_placeholder (c # cs) = None"
  show "((f, cs), (f, c # cs)) \<in> measure (\<lambda>(f, s). length s)"
    by simp
next
  fix f :: "string \<Rightarrow> string \<Rightarrow> string" and c cs x2 inner rest
  assume m: "match_placeholder (c # cs) = Some x2" and x2: "(inner, rest) = x2"
  have run: "\<And>P s r s'. take_run P s = Some (r, s') \<Longrightarrow> length s' \<le> length s"
    by (auto simp: take_run_def length_dropWhile_le split: if_splits)
  have ex: "\<And>d s s'. expect d s = Some s' \<Longrightarrow> length s' < length s"
    by (auto simp: expect_def split: list.splits if_splits)
  from m x2 obtain s1 a s2 s3 r s4 s5 k s6 where
    "expect CHR ''{'' (c # cs) = Some s1" "take_run idchar s1 = Some (a, s2)"
    "expect CHR ''.'' s2 = Some s3" "take_run is_digit s3 = Some (r, s4)"
    "expect CHR ''.'' s4 = Some s5" "take_run idchar s5 = Some (k, s6)"
    "expect CHR ''}'' s6 = Some rest"
    by (auto simp: match_placeholder_def split: option.splits)
  then have "length rest < length (c # cs)"
    using run ex by (meson le_less_trans less_le_trans less_imp_le)
  then show "((f, rest), (f, c # cs)) \<in> measure (\<lambda>(f, s). length s)"
    by simp
qed

record McppResolutionResult =
  success :: bool
  rvalue :: json

definition resolution_failed :: McppResolutionResult where
  "resolution_failed = \<lparr>success = False, rvalue = JNull\<rparr>"

text \<open>\<open>row[j]\<close>: reading past the end of a row gives \<open>undefined\<close>.\<close>

definition cell_at :: "json list \<Rightarrow> nat \<Rightarrow> json" where
  "cell_at row j = (if j < length row then row ! j else JUndefined)"

text \<open>
  \<open>resolveSinglePlaceholder(placeholder, cache)\<close>, the placeholder given without its
  braces. \<open>!rows[rowIndex]\<close> holds exactly when the index is negative or past the last
  row, since every row is an array.
\<close>

definition resolveSinglePlaceholder :: "string \<Rightarrow> cache \<Rightarrow> McppResolutionResult" where
  "resolveSinglePlaceholder placeholder c =
     (case split_on CHR ''.'' placeholder of
        [toolCallId, rowIndexStr, columnName] \<Rightarrow>
          (case parseInt10 rowIndexStr of
             None \<Rightarrow> resolution_failed
           | Some rowIndex \<Rightarrow>
               (case cache_get c toolCallId of
                  Some (Table hs rs) \<Rightarrow>
                    (case indexOf hs columnName of
                       None \<Rightarrow> resolution_failed
                     | Some columnIndex \<Rightarrow>
                         if rowIndex < 0 \<or> length rs \<le> nat rowIndex then resolution_failed
                         else \<lparr>success = True,
                               rvalue = cell_at (rs ! nat rowIndex) columnIndex\<rparr>)
                | _ \<Rightarrow> resolution_failed))
      | _ \<Rightarrow> resolution_failed)"

text \<open>The callback of the global replace in \<open>resolveInObject\<close>.\<close>

definition replace_callback :: "cache \<Rightarrow> string \<Rightarrow> string \<Rightarrow> string" where
  "replace_callback c m placeholder =
     (let result = resolveSinglePlaceholder placeholder c
      in if success result then js_String (rvalue result) else m)"

definition resolve_string :: "cache \<Rightarrow> string \<Rightarrow> json" where
  "resolve_string c obj =
     (case single_match obj of
        Some placeholder \<Rightarrow>
          (let result = resolveSinglePlaceholder placeholder c
           in if success result then rvalue result else JStr obj)
      | None \<Rightarrow> JStr (replace_placeholders (replace_callback c) obj))"

text \<open>
  \<open>resolveInObject\<close> of \<open>resolveArgumentPlaceholders\<close>: strings are resolved, arrays and
  objects are walked, every other value is returned as it is.
\<close>

primrec resolveInObject :: "cache \<Rightarrow> json \<Rightarrow> json" where
  "resolveInObject c JUndefined = JUndefined"
| "resolveInObject c JNull = JNull"
| "resolveInObject c (JBool b) = JBool b"
| "resolveInObject c (JNum n) = JNum n"
| "resolveInObject c (JStr s) = resolve_string c s"
| "resolveInObject c (JArr xs) = JArr (map (resolveInObject c) xs)"
| "resolveInObject c (JObj kvs) = JObj (map (map_prod id (resolveInObject c)) kvs)"

definition resolveArgumentPlaceholders :: "json \<Rightarrow> cache \<Rightarrow> json" where
  "resolveArgumentPlaceholders args c = resolveInObject c args"

section \<open>Types of the policy engine (mcpp-types.ts)\<close>

datatype DataUsage = Display | Process | Store | Transfer

datatype Permission = Allow | Deny | Prompt

text \<open>The target kinds \<open>'client' | 'server' | 'servers' | 'llm' | 'all'\<close>.\<close>

datatype TargetType = Client | Server | Servers | Llm | AllTargets

text \<open>A target list \<open>string[] | 'all' | 'none'\<close>.\<close>

datatype TargetList = Targets "string list" | TargetsAll | TargetsNone

record TargetPermissions =
  allowed_targets :: "TargetList option"
  blocked_targets :: "string list option"
  allowed_clients :: "TargetList option"
  allowed_servers :: "TargetList option"
  blocked_servers :: "string list option"

record ConsentOverrides =
  always_require_consent :: "bool option"
  never_require_consent :: "bool option"
  custom_consent_message :: "string option"
  allowed_without_consent :: "string list option"

record DataPolicy =
  data_usage_permissions :: "(DataUsage \<Rightarrow> Permission option) option"
  target_permissions :: "TargetPermissions option"
  consent_overrides :: "ConsentOverrides option"

record Tool =
  name :: string
  isSensitive :: "bool option"
  dataPolicy :: "DataPolicy option"

record Requester =
  host_id :: string
  session_id :: "string option"
  timestamp :: int

text \<open>
  The validators read \<open>target.destination as string\<close>; the model keeps the string
  case and \<open>undefined\<close>. The fields \<open>purpose\<close> and \<open>llm_metadata\<close> are read by no
  function below.
\<close>

record Target =
  target_type :: TargetType
  destination :: "string option"

record McppUsageContext =
  data_usage :: DataUsage
  requester :: Requester
  target :: Target

record DefaultTargetPolicy =
  client_policy :: Permission
  server_policy :: TargetList
  servers_policy :: TargetList
  llm_policy :: Permission
  all_policy :: Permission

record RequireConsentFor =
  sensitive_data_transfer :: bool
  external_server_transfer :: bool
  cross_domain_transfer :: bool
  llm_data_access :: bool
  any_transfer :: bool

datatype ConsentDecision = ConsentAllow | ConsentDeny

record UserConsentSettings =
  require_consent_for :: RequireConsentFor
  consent_timeout_seconds :: int
  default_on_timeout :: ConsentDecision
  cache_consent_duration_minutes :: int
  trusted_targets :: "string list"
  trusted_domains :: "string list"
  show_data_preview :: bool
  show_destination_info :: bool
  allow_remember_choice :: bool

datatype CategoryType = ServerTarget | LlmTarget | ClientTarget | OtherTarget

datatype Category = Internal | Partner | External | Public

datatype TrustLevel = High | Medium | Low

datatype DataRetention = RetentionNone | RetentionTemporary | RetentionPermanent

text \<open>Of a category's metadata only \<open>data_retention\<close> is read.\<close>

record TargetCategory =
  category_type :: CategoryType
  category :: Category
  trust_level :: TrustLevel
  requires_consent :: bool
  data_retention :: "DataRetention option"
  description :: "string option"

record GlobalPolicies =
  default_data_usage_policy :: "DataUsage \<Rightarrow> Permission"
  default_target_policy :: DefaultTargetPolicy
  user_consent_settings :: UserConsentSettings
  target_categories :: "string \<Rightarrow> TargetCategory option"

record McppServerConfig =
  global_policies :: GlobalPolicies

record ConsentCheckResult =
  consent_required :: bool
  reason :: "string list"
  consent_cache_key :: "string option"
  trusted_server :: bool
  custom_message :: "string option"

record DataSummary =
  placeholder_count :: nat
  data_types :: "string list"
  sensitive_fields :: "string list"

record TransferDetails =
  destination_server :: "string option"
  destination_description :: "string option"
  transfer_data_usage :: DataUsage
  transfer_trust_level :: TrustLevel

record ConsentOptions =
  allow_remember :: bool
  timeout_seconds :: int
  options_show_data_preview :: bool

record ConsentRequest =
  request_id :: string
  tool_name :: string
  data_summary :: DataSummary
  transfer_details :: TransferDetails
  options :: ConsentOptions
  request_custom_message :: "string option"

section \<open>Error codes\<close>

text \<open>
  Modelled from the spec: the module \<open>mcpp-errors.ts\<close> that defines \<open>MCPP_ERRORS\<close> is
  not among the sources; the values are those of the error-code table (section 6 of the
  specification, and the same table of the protocol document).
\<close>

definition INVALID_PARAMS :: int where "INVALID_PARAMS = - 32602"
definition METHOD_NOT_FOUND :: int where "METHOD_NOT_FOUND = - 32601"
definition INTERNAL_ERROR :: int where "INTERNAL_ERROR = - 32603"
definition CACHE_MISS :: int where "CACHE_MISS = - 32001"
definition REFERENCE_NOT_FOUND :: int where "REFERENCE_NOT_FOUND = - 32002"
definition RESOLUTION_FAILED :: int where "RESOLUTION_FAILED = - 32003"
definition DATA_NOT_FOUND :: int where "DATA_NOT_FOUND = - 32004"
definition INSUFFICIENT_PERMISSIONS :: int where "INSUFFICIENT_PERMISSIONS = - 32005"
definition CONSENT_REQUIRED :: int where "CONSENT_REQUIRED = - 32007"
definition CONSENT_DENIED :: int where "CONSENT_DENIED = - 32008"
definition CONSENT_TIMEOUT :: int where "CONSENT_TIMEOUT = - 32009"
definition INVALID_TARGET :: int where "INVALID_TARGET = - 32010"

section \<open>Policy evaluation (mcpp-validation.ts)\<close>

fun usage_level :: "DataUsage \<Rightarrow> nat" where
  "usage_level Display = 0"
| "usage_level Process = 1"
| "usage_level Store = 2"
| "usage_level Transfer = 3"

text \<open>\<open>validateDataUsage\<close>: the position in \<open>['display', 'process', 'store', 'transfer']\<close>.\<close>

definition validateDataUsage :: "DataUsage \<Rightarrow> DataUsage \<Rightarrow> bool" where
  "validateDataUsage required granted = (usage_level required \<le> usage_level granted)"

fun usage_str :: "DataUsage \<Rightarrow> string" where
  "usage_str Display = ''display''"
| "usage_str Process = ''process''"
| "usage_str Store = ''store''"
| "usage_str Transfer = ''transfer''"

fun type_str :: "TargetType \<Rightarrow> string" where
  "type_str Client = ''client''"
| "type_str Server = ''server''"
| "type_str Servers = ''servers''"
| "type_str Llm = ''llm''"
| "type_str AllTargets = ''all''"

definition tool_data_usage_permissions :: "Tool option \<Rightarrow> (DataUsage \<Rightarrow> Permission option) option" where
  "tool_data_usage_permissions tool = Option.bind (Option.bind tool dataPolicy) data_usage_permissions"

definition tool_target_permissions :: "Tool option \<Rightarrow> TargetPermissions option" where
  "tool_target_permissions tool = Option.bind (Option.bind tool dataPolicy) target_permissions"

definition tool_consent_overrides :: "Tool option \<Rightarrow> ConsentOverrides option" where
  "tool_consent_overrides tool = Option.bind (Option.bind tool dataPolicy) consent_overrides"

text \<open>
  \<open>getEffectiveDataUsagePermission\<close>: the tool's own entry for the requested level if
  it has one, otherwise the server default for that level.
\<close>

definition getEffectiveDataUsagePermission ::
  "Tool option \<Rightarrow> DataUsage \<Rightarrow> McppServerConfig \<Rightarrow> Permission" where
  "getEffectiveDataUsagePermission tool dataUsage serverConfig =
     (case Option.bind (tool_data_usage_permissions tool) (\<lambda>perms. perms dataUsage) of
        Some perm \<Rightarrow> perm
      | None \<Rightarrow> default_data_usage_policy (global_policies serverConfig) dataUsage)"

record TargetValidation =
  target_allowed :: bool
  target_reason :: string

definition target_denied :: "string \<Rightarrow> TargetValidation" where
  "target_denied r = \<lparr>target_allowed = False, target_reason = r\<rparr>"

text \<open>\<open>xs?.includes(x)\<close>: falsy when the list is absent.\<close>

definition includes_opt :: "string list option \<Rightarrow> string \<Rightarrow> bool" where
  "includes_opt l x = (case l of None \<Rightarrow> False | Some xs \<Rightarrow> x \<in> set xs)"

text \<open>An allowlist that is an array and does not contain the destination.\<close>

definition not_in_list :: "TargetList option \<Rightarrow> string \<Rightarrow> bool" where
  "not_in_list l x = (case l of Some (Targets xs) \<Rightarrow> x \<notin> set xs | _ \<Rightarrow> False)"

text \<open>
  The tool-level block of \<open>validateTargetPermissions\<close>, entered when the tool has
  \<open>target_permissions\<close> and the destination is truthy. \<open>None\<close>: no early return.
\<close>

definition tool_target_check ::
  "TargetPermissions \<Rightarrow> TargetType \<Rightarrow> string \<Rightarrow> TargetValidation option" where
  "tool_target_check policy ttype dest =
     (if includes_opt (blocked_targets policy) dest
        then Some (target_denied (type_str ttype @ ''_blocked_by_tool''))
      else if not_in_list (allowed_targets policy) dest
        then Some (target_denied (type_str ttype @ ''_not_in_allowlist''))
      else if allowed_targets policy = Some TargetsNone
        then Some (target_denied ''no_targets_allowed'')
      else if ttype = Server \<and> includes_opt (blocked_servers policy) dest
        then Some (target_denied ''server_blocked_by_tool'')
      else if ttype = Server \<and> not_in_list (allowed_servers policy) dest
        then Some (target_denied ''server_not_in_allowlist'')
      else if ttype = Server \<and> allowed_servers policy = Some TargetsNone
        then Some (target_denied ''no_servers_allowed'')
      else if ttype = Client \<and> not_in_list (allowed_clients policy) dest
        then Some (target_denied ''client_not_in_allowlist'')
      else if ttype = Client \<and> allowed_clients policy = Some TargetsNone
        then Some (target_denied ''no_clients_allowed'')
      else None)"

text \<open>The global part: the server allowlist and the global LLM switch.\<close>

definition global_target_check :: "DefaultTargetPolicy \<Rightarrow> Target \<Rightarrow> TargetValidation option" where
  "global_target_check globalPolicy tgt =
     (if target_type tgt = Server \<and>
         (case (server_policy globalPolicy, destination tgt) of
            (Targets xs, Some d) \<Rightarrow> d \<notin> set xs
          | _ \<Rightarrow> False)
        then Some (target_denied ''server_not_in_global_allowlist'')
      else if target_type tgt = Server \<and> server_policy globalPolicy = TargetsNone
        then Some (target_denied ''no_servers_allowed_globally'')
      else if target_type tgt = Llm \<and> llm_policy globalPolicy = Deny
        then Some (target_denied ''llms_denied_globally'')
      else None)"

definition validateTargetPermissions ::
  "Tool option \<Rightarrow> McppUsageContext \<Rightarrow> McppServerConfig \<Rightarrow> TargetValidation" where
  "validateTargetPermissions tool usageContext serverConfig =
     (let tgt = target usageContext;
          tool_result =
            (case (tool_target_permissions tool, destination tgt) of
               (Some policy, Some dest) \<Rightarrow>
                 if dest \<noteq> [] then tool_target_check policy (target_type tgt) dest else None
             | _ \<Rightarrow> None)
      in case tool_result of
           Some r \<Rightarrow> r
         | None \<Rightarrow>
             (case global_target_check (default_target_policy (global_policies serverConfig)) tgt of
                Some r \<Rightarrow> r
              | None \<Rightarrow> \<lparr>target_allowed = True, target_reason = ''validation_passed''\<rparr>))"

definition no_consent :: "string \<Rightarrow> ConsentCheckResult" where
  "no_consent r =
     \<lparr>consent_required = False, reason = [r], consent_cache_key = None,
      trusted_server = True, custom_message = None\<rparr>"

text \<open>One entry of \<open>trusted_domains\<close>: \<open>*.suffix\<close> or a literal destination.\<close>

definition trusted_domain_match :: "string \<Rightarrow> string \<Rightarrow> bool" where
  "trusted_domain_match dest domain =
     (if startsWith domain ''*.'' then endsWith dest (drop 2 domain) else dest = domain)"

text \<open>The tool's \<open>consent_overrides\<close> block. \<open>None\<close>: no early return.\<close>

definition consent_override_check ::
  "ConsentOverrides \<Rightarrow> string option \<Rightarrow> ConsentCheckResult option" where
  "consent_override_check overrides dest =
     (if never_require_consent overrides = Some True
        then Some (no_consent ''tool_override_never'')
      else if always_require_consent overrides = Some True
        then Some \<lparr>consent_required = True, reason = [''tool_override_always''],
                   consent_cache_key = None, trusted_server = False,
                   custom_message = custom_consent_message overrides\<rparr>
      else if (case (allowed_without_consent overrides, dest) of
                 (Some xs, Some d) \<Rightarrow> d \<noteq> [] \<and> d \<in> set xs
               | _ \<Rightarrow> False)
        then Some (no_consent ''tool_allowed_list'')
      else None)"

text \<open>The consent triggers of \<open>require_consent_for\<close>, as the list of pushed reasons.\<close>

definition consent_triggers ::
  "Tool option \<Rightarrow> McppUsageContext \<Rightarrow> RequireConsentFor \<Rightarrow> TargetCategory option \<Rightarrow> string list" where
  "consent_triggers tool usageContext rc targetInfo =
     (if any_transfer rc \<and> data_usage usageContext = Transfer
        then [''any_transfer_policy''] else []) @
     (if sensitive_data_transfer rc \<and> Option.bind tool isSensitive = Some True
        then [''sensitive_data_transfer''] else []) @
     (if target_type (target usageContext) = Llm \<and> llm_data_access rc
        then [''llm_data_access_policy''] else []) @
     (if target_type (target usageContext) = Llm \<and>
         Option.bind targetInfo data_retention = Some RetentionPermanent
        then [''llm_permanent_retention''] else []) @
     (if target_type (target usageContext) = Server \<and> external_server_transfer rc \<and>
         map_option category targetInfo = Some External
        then [''external_server_transfer''] else [])"

definition default_consent_message :: "TargetType \<Rightarrow> string \<Rightarrow> string" where
  "default_consent_message ttype dest =
     ''This operation will send data to '' @ type_str ttype @ '' '' @ [CHR 0x27] @ dest @ [CHR 0x27] @
     ''. Do you want to proceed?''"

text \<open>The part of \<open>checkConsentRequired\<close> under \<open>if (destination)\<close>.\<close>

definition destination_consent_check ::
  "Tool option \<Rightarrow> McppUsageContext \<Rightarrow> McppServerConfig \<Rightarrow> string \<Rightarrow> ConsentCheckResult option" where
  "destination_consent_check tool usageContext serverConfig dest =
     (let settings = user_consent_settings (global_policies serverConfig);
          targetInfo = target_categories (global_policies serverConfig) dest;
          reasons = consent_triggers tool usageContext (require_consent_for settings) targetInfo
      in if dest \<in> set (trusted_targets settings) then Some (no_consent ''trusted_target'')
         else if list_ex (trusted_domain_match dest) (trusted_domains settings)
           then Some (no_consent ''trusted_domain'')
         else if (case targetInfo of Some info \<Rightarrow> \<not> requires_consent info | None \<Rightarrow> False)
           then Some (no_consent ''category_exemption'')
         else if reasons \<noteq> []
           then Some \<lparr>consent_required = True, reason = reasons,
                      consent_cache_key =
                        Some (dest @ ''_'' @ usage_str (data_usage usageContext) @ ''_'' @
                              type_str (target_type (target usageContext))),
                      trusted_server = False,
                      custom_message =
                        Some (case Option.bind (tool_consent_overrides tool) custom_consent_message of
                                Some m \<Rightarrow>
                                  if m \<noteq> [] then m
                                  else default_consent_message (target_type (target usageContext)) dest
                              | None \<Rightarrow>
                                  default_consent_message (target_type (target usageContext)) dest)\<rparr>
         else None)"

definition checkConsentRequired ::
  "Tool option \<Rightarrow> McppUsageContext \<Rightarrow> McppServerConfig \<Rightarrow> ConsentCheckResult" where
  "checkConsentRequired tool usageContext serverConfig =
     (let dest = destination (target usageContext)
      in if data_usage usageContext = Display \<and> target_type (target usageContext) = Client
           then no_consent ''display_to_client''
         else
           (case (case tool_consent_overrides tool of
                    Some overrides \<Rightarrow> consent_override_check overrides dest
                  | None \<Rightarrow> None) of
              Some r \<Rightarrow> r
            | None \<Rightarrow>
                (case (case dest of
                         Some d \<Rightarrow>
                           if d \<noteq> [] then destination_consent_check tool usageContext serverConfig d
                           else None
                       | None \<Rightarrow> None) of
                   Some r \<Rightarrow> r
                 | None \<Rightarrow> no_consent ''no_consent_required'')))"

subsection \<open>The consent request\<close>

definition hex_char :: "nat \<Rightarrow> char" where
  "hex_char d = ''0123456789abcdef'' ! d"

text \<open>The escapes of \<open>JSON.stringify\<close> inside a string literal.\<close>

definition json_escape :: "char \<Rightarrow> string" where
  "json_escape c =
     (let n = (of_char c :: nat)
      in if n = 34 then [CHR 0x5C, CHR 0x22]
         else if n = 92 then [CHR 0x5C, CHR 0x5C]
         else if n = 8 then [CHR 0x5C, CHR ''b'']
         else if n = 9 then [CHR 0x5C, CHR ''t'']
         else if n = 10 then [CHR 0x5C, CHR ''n'']
         else if n = 12 then [CHR 0x5C, CHR ''f'']
         else if n = 13 then [CHR 0x5C, CHR ''r'']
         else if n < 32 then [CHR 0x5C, CHR ''u'', CHR ''0'', CHR ''0'', hex_char (n div 16), hex_char (n mod 16)]
         else [c])"

definition json_quote :: "string \<Rightarrow> string" where
  "json_quote s = [CHR 0x22] @ concat (map json_escape s) @ [CHR 0x22]"

text \<open>
  \<open>JSON.stringify(v)\<close> for a value that is not \<open>undefined\<close> itself: an \<open>undefined\<close>
  array element is written \<open>null\<close>, an \<open>undefined\<close> property is left out.
\<close>

fun JSON_stringify :: "json \<Rightarrow> string" where
  "JSON_stringify JUndefined = ''null''"
| "JSON_stringify JNull = ''null''"
| "JSON_stringify (JBool b) = (if b then ''true'' else ''false'')"
| "JSON_stringify (JNum n) = number_text n"
| "JSON_stringify (JStr s) = json_quote s"
| "JSON_stringify (JArr xs) = ''['' @ join '','' (map JSON_stringify xs) @ '']''"
| "JSON_stringify (JObj kvs) =
     ''{'' @ join '',''
        (map (\<lambda>kv. json_quote (fst kv) @ '':'' @ JSON_stringify (snd kv))
             (filter (\<lambda>kv. snd kv \<noteq> JUndefined) kvs)) @ ''}''"

text \<open>
  \<open>s.match(re)\<close> with the global flag, for a pattern given by its matcher at the start
  of a string (matched text and rest). A match of the patterns below is never empty,
  which is what the comparison of lengths records.
\<close>

fun scan_matches :: "(string \<Rightarrow> (string \<times> string) option) \<Rightarrow> string \<Rightarrow> string list" where
  "scan_matches m [] = []"
| "scan_matches m (c # cs) =
     (case m (c # cs) of
        Some (g, rest) \<Rightarrow> g # scan_matches m (if length rest \<le> length cs then rest else cs)
      | None \<Rightarrow> scan_matches m cs)"

text \<open>The pattern \<open>/\{[^}]+\}/\<close>.\<close>

definition match_braced :: "string \<Rightarrow> (string \<times> string) option" where
  "match_braced s =
     (case expect CHR ''{'' s of None \<Rightarrow> None | Some s1 \<Rightarrow>
      case take_run (\<lambda>c. c \<noteq> CHR ''}'') s1 of None \<Rightarrow> None | Some (b, s2) \<Rightarrow>
      case expect CHR ''}'' s2 of None \<Rightarrow> None | Some rest \<Rightarrow>
        Some (''{'' @ b @ ''}'', rest))"

text \<open>The pattern \<open>/\{[^.]+\.[^.]+\.([^}]+)\}/\<close>.\<close>

definition match_field :: "string \<Rightarrow> (string \<times> string) option" where
  "match_field s =
     (case expect CHR ''{'' s of None \<Rightarrow> None | Some s1 \<Rightarrow>
      case take_run (\<lambda>c. c \<noteq> CHR ''.'') s1 of None \<Rightarrow> None | Some (a, s2) \<Rightarrow>
      case expect CHR ''.'' s2 of None \<Rightarrow> None | Some s3 \<Rightarrow>
      case take_run (\<lambda>c. c \<noteq> CHR ''.'') s3 of None \<Rightarrow> None | Some (r, s4) \<Rightarrow>
      case expect CHR ''.'' s4 of None \<Rightarrow> None | Some s5 \<Rightarrow>
      case take_run (\<lambda>c. c \<noteq> CHR ''}'') s5 of None \<Rightarrow> None | Some (k, s6) \<Rightarrow>
      case expect CHR ''}'' s6 of None \<Rightarrow> None | Some rest \<Rightarrow>
        Some (''{'' @ a @ ''.'' @ r @ ''.'' @ k @ ''}'', rest))"

definition count_placeholder_like :: "json \<Rightarrow> nat" where
  "count_placeholder_like placeholderData =
     (case placeholderData of
        JStr s \<Rightarrow> length (scan_matches match_braced s)
      | JUndefined \<Rightarrow> 0
      | JBool b \<Rightarrow> 0
      | JNum n \<Rightarrow> 0
      | _ \<Rightarrow> length (scan_matches match_braced (JSON_stringify placeholderData)))"

text \<open>\<open>match.slice(1, -1).split('.')[2] || 'unknown'\<close>.\<close>

definition field_of_match :: "string \<Rightarrow> string" where
  "field_of_match m =
     (let parts = split_on CHR ''.'' (butlast (tl m))
      in if 2 < length parts \<and> parts ! 2 \<noteq> [] then parts ! 2 else ''unknown'')"

text \<open>\<open>[...new Set(xs)]\<close>: the first occurrence of every element, in order.\<close>

definition dedupe :: "string list \<Rightarrow> string list" where
  "dedupe xs = rev (remdups (rev xs))"

definition extract_data_types :: "json \<Rightarrow> string list" where
  "extract_data_types placeholderData =
     (case placeholderData of
        JStr s \<Rightarrow> dedupe (map field_of_match (scan_matches match_field s))
      | _ \<Rightarrow> [])"

definition is_sensitive_field :: "string \<Rightarrow> bool" where
  "is_sensitive_field field =
     (includes_str (toLowerCase field) ''email'' \<or>
      includes_str (toLowerCase field) ''phone'' \<or>
      includes_str (toLowerCase field) ''ssn'' \<or>
      includes_str (toLowerCase field) ''credit'' \<or>
      includes_str (toLowerCase field) ''password'')"

text \<open>
  \<open>createConsentRequest\<close>. The request id is built from the clock and the random
  generator: \<open>now\<close> is \<open>Date.now()\<close> and \<open>rnd\<close> the nine characters
  \<open>Math.random().toString(36).substr(2, 9)\<close>. An \<open>undefined\<close> destination indexes
  \<open>target_categories\<close> by the key \<open>undefined\<close>.
\<close>

definition createConsentRequest ::
  "Tool option \<Rightarrow> McppUsageContext \<Rightarrow> McppServerConfig \<Rightarrow> json \<Rightarrow> nat \<Rightarrow> string \<Rightarrow> ConsentRequest" where
  "createConsentRequest tool usageContext serverConfig placeholderData now rnd =
     (let dest = destination (target usageContext);
          targetInfo =
            target_categories (global_policies serverConfig)
              (case dest of Some d \<Rightarrow> d | None \<Rightarrow> ''undefined'');
          dataTypes = extract_data_types placeholderData;
          settings = user_consent_settings (global_policies serverConfig)
      in \<lparr>request_id = ''consent_'' @ decimal now @ ''_'' @ rnd,
          tool_name = (case tool of
                         Some t \<Rightarrow> if name t \<noteq> [] then name t else ''unknown''
                       | None \<Rightarrow> ''unknown''),
          data_summary =
            \<lparr>placeholder_count = count_placeholder_like placeholderData,
             data_types = dataTypes,
             sensitive_fields = filter is_sensitive_field dataTypes\<rparr>,
          transfer_details =
            \<lparr>destination_server = dest,
             destination_description = Option.bind targetInfo description,
             transfer_data_usage = data_usage usageContext,
             transfer_trust_level = (case targetInfo of Some info \<Rightarrow> trust_level info | None \<Rightarrow> Low)\<rparr>,
          options =
            \<lparr>allow_remember = allow_remember_choice settings,
             timeout_seconds = consent_timeout_seconds settings,
             options_show_data_preview = show_data_preview settings\<rparr>,
          request_custom_message =
            Option.bind (tool_consent_overrides tool) custom_consent_message\<rparr>)"

subsection \<open>The complete validation\<close>

record ValidationDetails =
  data_usage_valid :: bool
  target_permissions_valid :: bool
  consent_check :: ConsentCheckResult

record ValidationResult =
  allowed :: bool
  error_code :: "int option"
  error_message :: "string option"
  consent_request :: "ConsentRequest option"
  validation_details :: ValidationDetails

definition validateDataAccess ::
  "Tool option \<Rightarrow> McppUsageContext \<Rightarrow> McppServerConfig \<Rightarrow> json \<Rightarrow> nat \<Rightarrow> string \<Rightarrow> ValidationResult" where
  "validateDataAccess tool usageContext serverConfig placeholderData now rnd =
     (let effectivePermission =
            getEffectiveDataUsagePermission tool (data_usage usageContext) serverConfig;
          targetValidation = validateTargetPermissions tool usageContext serverConfig;
          consentCheck = checkConsentRequired tool usageContext serverConfig
      in if effectivePermission = Deny then
           \<lparr>allowed = False,
            error_code = Some INSUFFICIENT_PERMISSIONS,
            error_message =
              Some (''Data usage '' @ [CHR 0x27] @ usage_str (data_usage usageContext) @ [CHR 0x27] @
                    '' is not permitted for this tool''),
            consent_request = None,
            validation_details =
              \<lparr>data_usage_valid = False, target_permissions_valid = False,
               consent_check =
                 \<lparr>consent_required = False, reason = [''denied''], consent_cache_key = None,
                  trusted_server = False, custom_message = None\<rparr>\<rparr>\<rparr>
         else if \<not> target_allowed targetValidation then
           \<lparr>allowed = False,
            error_code = Some INSUFFICIENT_PERMISSIONS,
            error_message = Some (''Target access denied: '' @ target_reason targetValidation),
            consent_request = None,
            validation_details =
              \<lparr>data_usage_valid = True, target_permissions_valid = False,
               consent_check =
                 \<lparr>consent_required = False, reason = [''target_denied''], consent_cache_key = None,
                  trusted_server = False, custom_message = None\<rparr>\<rparr>\<rparr>
         else if consent_required consentCheck then
           \<lparr>allowed = False,
            error_code = Some CONSENT_REQUIRED,
            error_message = Some ''User consent required for data transfer'',
            consent_request =
              Some (createConsentRequest tool usageContext serverConfig placeholderData now rnd),
            validation_details =
              \<lparr>data_usage_valid = True, target_permissions_valid = True,
               consent_check = consentCheck\<rparr>\<rparr>
         else if effectivePermission = Prompt then
           \<lparr>allowed = False,
            error_code = Some CONSENT_REQUIRED,
            error_message = Some ''User confirmation required for this operation'',
            consent_request =
              Some (createConsentRequest tool usageContext serverConfig placeholderData now rnd),
            validation_details =
              \<lparr>data_usage_valid = True, target_permissions_valid = True,
               consent_check = consentCheck\<lparr>consent_required := True, reason := [''prompt_required'']\<rparr>\<rparr>\<rparr>
         else
           \<lparr>allowed = True, error_code = None, error_message = None, consent_request = None,
            validation_details =
              \<lparr>data_usage_valid = True, target_permissions_valid = True,
               consent_check = consentCheck\<rparr>\<rparr>)"

section \<open>The endpoints (mcpp-endpoints.ts)\<close>

text \<open>The \<open>data\<close> member of an error response, one constructor for each shape.\<close>

datatype ErrorData =
    NoData
  | RequiredParams "string list"
  | CacheNotFound string "string list"
  | ValidationFailure "ConsentRequest option" ValidationDetails
  | InvalidColumn string "string list"
  | NoReference string real real nat nat
  | ValidDecisions "string list"
  | RequestNotFound string "string list"

datatype 'r Response =
    Result 'r json
  | Error "int option" "string option" ErrorData json

text \<open>\<open>id || null\<close>.\<close>

definition id_or_null :: "json \<Rightarrow> json" where
  "id_or_null i = (if truthy i then i else JNull)"

record GetDataParams =
  tool_call_id :: "string option"
  usage_context :: "McppUsageContext option"

text \<open>The error response that both gated endpoints build from a failed validation.\<close>

definition validation_error :: "ValidationResult \<Rightarrow> json \<Rightarrow> 'r Response" where
  "validation_error validation i =
     Error (error_code validation) (error_message validation)
       (ValidationFailure (consent_request validation) (validation_details validation))
       (id_or_null i)"

text \<open>
  \<open>handleGetData\<close>. The validation runs only when the request carries a usage context
  and the caller passes a server configuration.
\<close>

definition handleGetData ::
  "cache \<Rightarrow> GetDataParams option \<Rightarrow> json \<Rightarrow> Tool option \<Rightarrow> McppServerConfig option \<Rightarrow>
   nat \<Rightarrow> string \<Rightarrow> CachedData Response" where
  "handleGetData dataCache params i tool serverConfig now rnd =
     (case Option.bind params tool_call_id of
        None \<Rightarrow>
          Error (Some INVALID_PARAMS) (Some ''Invalid params: tool_call_id is required'')
            (RequiredParams [''tool_call_id'']) (id_or_null i)
      | Some tcid \<Rightarrow>
          if tcid = [] then
            Error (Some INVALID_PARAMS) (Some ''Invalid params: tool_call_id is required'')
              (RequiredParams [''tool_call_id'']) (id_or_null i)
          else
            (case cache_get dataCache tcid of
               None \<Rightarrow>
                 Error (Some DATA_NOT_FOUND) (Some ''Cached data not found for the given tool_call_id'')
                   (CacheNotFound tcid (cache_keys dataCache)) (id_or_null i)
             | Some data \<Rightarrow>
                 (case (Option.bind params usage_context, serverConfig) of
                    (Some uc, Some cfg) \<Rightarrow>
                      (let validation = validateDataAccess tool uc cfg (cached_json data) now rnd
                       in if \<not> allowed validation then validation_error validation i
                          else Result data (id_or_null i))
                  | _ \<Rightarrow> Result data (id_or_null i))))"

section \<open>The default server configuration (mcpp-server-config.ts)\<close>

definition category_entry ::
  "CategoryType \<Rightarrow> Category \<Rightarrow> TrustLevel \<Rightarrow> bool \<Rightarrow> DataRetention option \<Rightarrow> string \<Rightarrow> TargetCategory" where
  "category_entry t c l rc dr descr =
     \<lparr>category_type = t, category = c, trust_level = l, requires_consent = rc,
      data_retention = dr, description = Some descr\<rparr>"

definition default_target_categories :: "(string \<times> TargetCategory) list" where
  "default_target_categories =
     [(''analytics_server'',
         category_entry ServerTarget Internal High False None ''Internal Analytics Platform''),
      (''backup_service'',
         category_entry ServerTarget Internal High False None ''Data Backup Service''),
      (''partner_crm'',
         category_entry ServerTarget Partner Medium True None ''Partner CRM System''),
      (''external_api'',
         category_entry ServerTarget External Low True None ''External API Service''),
      (''public_service'',
         category_entry ServerTarget Public Low True None ''Public Service API''),
      (''gpt-4'',
         category_entry LlmTarget External Medium True (Some RetentionTemporary)
           ''OpenAI GPT-4 Language Model''),
      (''gpt-3.5-turbo'',
         category_entry LlmTarget External Medium False (Some RetentionTemporary)
           ''OpenAI GPT-3.5 Turbo Language Model''),
      (''claude-3'',
         category_entry LlmTarget External High False (Some RetentionNone)
           ''Anthropic Claude 3 Language Model''),
      (''internal_llm'',
         category_entry LlmTarget Internal High False (Some RetentionNone)
           ''Internal Company Language Model''),
      (''llama-2'',
         category_entry LlmTarget Internal High False (Some RetentionNone)
           ''Meta LLaMA 2 Language Model (Local)'')]"

fun default_usage_policy :: "DataUsage \<Rightarrow> Permission" where
  "default_usage_policy Display = Allow"
| "default_usage_policy Process = Allow"
| "default_usage_policy Store = Prompt"
| "default_usage_policy Transfer = Prompt"

definition defaultMcppConfig :: McppServerConfig where
  "defaultMcppConfig =
     \<lparr>global_policies =
        \<lparr>default_data_usage_policy = default_usage_policy,
         default_target_policy =
           \<lparr>client_policy = Allow, server_policy = TargetsAll, servers_policy = TargetsAll,
            llm_policy = Prompt, all_policy = Prompt\<rparr>,
         user_consent_settings =
           \<lparr>require_consent_for =
              \<lparr>sensitive_data_transfer = True, external_server_transfer = True,
               cross_domain_transfer = False, llm_data_access = True, any_transfer = False\<rparr>,
            consent_timeout_seconds = 30,
            default_on_timeout = ConsentDeny,
            cache_consent_duration_minutes = 60,
            trusted_targets =
              [''localhost'', ''internal_analytics'', ''backup_service'', ''internal_llm'',
               ''claude-3'', ''gpt-3.5-turbo''],
            trusted_domains = [''*.company.com'', ''*.internal''],
            show_data_preview = True,
            show_destination_info = True,
            allow_remember_choice = True\<rparr>,
         target_categories = map_of default_target_categories\<rparr>\<rparr>"

section \<open>The consent coordinator (mcpp-consent.ts)\<close>

record ConsentCacheEntry =
  decision :: ConsentDecision
  entry_timestamp :: int
  duration_minutes :: int
  requester_host_id :: string
  entry_destination :: string
  entry_data_usage :: string

text \<open>
  The state of the \<open>ConsentCache\<close> singleton: the decision cache, the pending request
  ids in insertion order, and, as the visible effect of \<open>pending.resolve(decision)\<close>,
  the decisions handed to the waiting callers. The clock \<open>Date.now()\<close> is the
  argument \<open>now\<close>, in milliseconds.
\<close>

record ConsentCache =
  entries :: "string \<Rightarrow> ConsentCacheEntry option"
  pendingRequests :: "string list"
  delivered :: "(string \<times> ConsentDecision) list"

definition expiryTime :: "ConsentCacheEntry \<Rightarrow> int" where
  "expiryTime entry = entry_timestamp entry + duration_minutes entry * 60 * 1000"

definition cleanupExpiredEntries :: "int \<Rightarrow> ConsentCache \<Rightarrow> ConsentCache" where
  "cleanupExpiredEntries now st =
     st\<lparr>entries :=
          (\<lambda>key. case entries st key of
                    Some entry \<Rightarrow> if expiryTime entry < now then None else Some entry
                  | None \<Rightarrow> None)\<rparr>"

definition setConsent ::
  "string \<Rightarrow> ConsentDecision \<Rightarrow> int \<Rightarrow> string \<Rightarrow> string \<Rightarrow> string \<Rightarrow> int \<Rightarrow> ConsentCache \<Rightarrow> ConsentCache" where
  "setConsent cacheKey dec durationMinutes requesterHostId dest dataUsage now st =
     cleanupExpiredEntries now
       (st\<lparr>entries :=
            (entries st)(cacheKey \<mapsto>
               \<lparr>decision = dec, entry_timestamp = now, duration_minutes = durationMinutes,
                requester_host_id = requesterHostId, entry_destination = dest,
                entry_data_usage = dataUsage\<rparr>)\<rparr>)"

definition getConsent :: "string \<Rightarrow> int \<Rightarrow> ConsentCache \<Rightarrow> ConsentDecision option \<times> ConsentCache" where
  "getConsent cacheKey now st =
     (case entries st cacheKey of
        None \<Rightarrow> (None, st)
      | Some entry \<Rightarrow>
          if expiryTime entry < now then (None, st\<lparr>entries := (entries st)(cacheKey := None)\<rparr>)
          else (Some (decision entry), st))"

definition generateCacheKey :: "string \<Rightarrow> string \<Rightarrow> string \<Rightarrow> string option \<Rightarrow> string" where
  "generateCacheKey requesterHostId dest dataUsage toolName =
     join ''::''
       ([requesterHostId, dest, dataUsage] @
        (case toolName of Some t \<Rightarrow> if t \<noteq> [] then [t] else [] | None \<Rightarrow> []))"

text \<open>\<open>storePendingRequest\<close>: the registration; the timer is not modelled.\<close>

definition storePendingRequest :: "string \<Rightarrow> ConsentCache \<Rightarrow> ConsentCache" where
  "storePendingRequest requestId st =
     st\<lparr>pendingRequests :=
          (if requestId \<in> set (pendingRequests st) then pendingRequests st
           else pendingRequests st @ [requestId])\<rparr>"

definition resolveConsentRequest :: "string \<Rightarrow> ConsentDecision \<Rightarrow> ConsentCache \<Rightarrow> bool \<times> ConsentCache" where
  "resolveConsentRequest requestId dec st =
     (if requestId \<notin> set (pendingRequests st) then (False, st)
      else (True, st\<lparr>pendingRequests := removeAll requestId (pendingRequests st),
                      delivered := delivered st @ [(requestId, dec)]\<rparr>))"

definition getPendingRequests :: "ConsentCache \<Rightarrow> string list" where
  "getPendingRequests st = pendingRequests st"

subsection \<open>\<open>handleProvideConsent\<close>\<close>

record ProvideConsentParams =
  consent_request_id :: "string option"
  consent_decision :: "string option"
  remember :: json
  consent_duration_minutes :: json

record ProvideConsentResult =
  result_request_id :: string
  result_decision :: string
  remembered :: json
  result_message :: string

definition required_consent_params :: "json \<Rightarrow> ProvideConsentResult Response" where
  "required_consent_params i =
     Error (Some INVALID_PARAMS) (Some ''Invalid params: request_id and decision are required'')
       (RequiredParams [''request_id'', ''decision'']) i"

text \<open>
  The handler and the consent state after it. In the source the block under
  \<open>if (remember && duration_minutes)\<close> holds two comments and no statement, so both
  branches of that test leave the state as \<open>resolveConsentRequest\<close> returned it.
\<close>

definition handleProvideConsent ::
  "ConsentCache \<Rightarrow> ProvideConsentParams option \<Rightarrow> json \<Rightarrow> ProvideConsentResult Response \<times> ConsentCache" where
  "handleProvideConsent st params i =
     (case params of
        None \<Rightarrow> (required_consent_params i, st)
      | Some p \<Rightarrow>
          (case (consent_request_id p, consent_decision p) of
             (Some rid, Some dec) \<Rightarrow>
               if rid = [] \<or> dec = [] then (required_consent_params i, st)
               else if dec \<notin> set [''allow'', ''deny''] then
                 (Error (Some INVALID_PARAMS) (Some (''Invalid decision: must be '' @ [CHR 0x22] @ ''allow'' @ [CHR 0x22] @ '' or '' @
                          [CHR 0x22] @ ''deny'' @ [CHR 0x22]))
                    (ValidDecisions [''allow'', ''deny'']) i, st)
               else
                 (case resolveConsentRequest rid
                         (if dec = ''allow'' then ConsentAllow else ConsentDeny) st of
                    (resolved, st1) \<Rightarrow>
                      if \<not> resolved then
                        (Error (Some DATA_NOT_FOUND) (Some ''Consent request not found or expired'')
                           (RequestNotFound rid (getPendingRequests st1)) i, st1)
                      else
                        (Result
                           \<lparr>result_request_id = rid, result_decision = dec,
                            remembered = (if truthy (remember p) then remember p else JBool False),
                            result_message = ''Consent '' @ dec @ '' recorded successfully''\<rparr> i,
                         if truthy (remember p) \<and> truthy (consent_duration_minutes p) then st1 else st1))
           | _ \<Rightarrow> (required_consent_params i, st)))"

subsection \<open>\<open>handleFindReference\<close>\<close>

record FindReferenceParams =
  ref_tool_call_id :: "string option"
  keyword :: "string option"
  column_name :: "string option"

record BestMatch =
  placeholder :: string
  similarity :: real
  rowIndex :: int
  columnName :: string

record ReferenceMetadata =
  meta_tool_call_id :: string
  row_index :: int
  meta_column_name :: string
  keyword_searched :: string

record FindReferenceResult =
  result_placeholder :: string
  reference_message :: string
  result_similarity :: real
  metadata :: ReferenceMetadata

definition SIMILARITY_THRESHOLD :: real where
  "SIMILARITY_THRESHOLD = 7 / 10"

definition initial_best :: BestMatch where
  "initial_best = \<lparr>placeholder = [], similarity = - 1, rowIndex = - 1, columnName = []\<rparr>"

text \<open>
  The body of both scanning loops, for the cell in row \<open>i\<close> and column \<open>j\<close>. The
  similarity measure \<open>jw\<close> stands for the function of the \<open>jaro-winkler\<close> package,
  which is not part of this repository.
\<close>

definition scan_cell ::
  "(string \<Rightarrow> string \<Rightarrow> real) \<Rightarrow> string \<Rightarrow> string \<Rightarrow> string list \<Rightarrow> json list list \<Rightarrow>
   BestMatch \<Rightarrow> nat \<times> nat \<Rightarrow> BestMatch" where
  "scan_cell jw refToolCallId kw hs rs bestMatch ij =
     (let cellValue = js_String (cell_at (rs ! fst ij) (snd ij));
          sim = jw (toLowerCase kw) (toLowerCase cellValue)
      in if similarity bestMatch < sim then
           \<lparr>placeholder = ''{'' @ refToolCallId @ ''.'' @ decimal (fst ij) @ ''.'' @ hs ! snd ij @ ''}'',
            similarity = sim, rowIndex = int (fst ij), columnName = hs ! snd ij\<rparr>
         else bestMatch)"

text \<open>The loop over the rows for one column, and the nested loop over all cells.\<close>

definition scan_column ::
  "(string \<Rightarrow> string \<Rightarrow> real) \<Rightarrow> string \<Rightarrow> string \<Rightarrow> string list \<Rightarrow> json list list \<Rightarrow> nat \<Rightarrow> BestMatch" where
  "scan_column jw refToolCallId kw hs rs colIndex =
     foldl (\<lambda>b i. scan_cell jw refToolCallId kw hs rs b (i, colIndex)) initial_best [0..<length rs]"

definition scan_table ::
  "(string \<Rightarrow> string \<Rightarrow> real) \<Rightarrow> string \<Rightarrow> string \<Rightarrow> string list \<Rightarrow> json list list \<Rightarrow> BestMatch" where
  "scan_table jw refToolCallId kw hs rs =
     foldl (\<lambda>b i. foldl (\<lambda>b j. scan_cell jw refToolCallId kw hs rs b (i, j)) b [0..<length hs])
       initial_best [0..<length rs]"

definition reference_response ::
  "string \<Rightarrow> string \<Rightarrow> string list \<Rightarrow> json list list \<Rightarrow> BestMatch \<Rightarrow> json \<Rightarrow> FindReferenceResult Response" where
  "reference_response refToolCallId kw hs rs bestMatch i =
     (if SIMILARITY_THRESHOLD < similarity bestMatch then
        Result
          \<lparr>result_placeholder = placeholder bestMatch,
           reference_message =
             ''A match was found in column '' @ columnName bestMatch @ '' at row '' @
             number_text (rowIndex bestMatch),
           result_similarity = similarity bestMatch,
           metadata =
             \<lparr>meta_tool_call_id = refToolCallId, row_index = rowIndex bestMatch,
              meta_column_name = columnName bestMatch, keyword_searched = kw\<rparr>\<rparr> i
      else
        Error (Some REFERENCE_NOT_FOUND) (Some ''No suitable reference found for the given keyword'')
          (NoReference kw SIMILARITY_THRESHOLD (similarity bestMatch) (length rs) (length hs)) i)"

definition missing_reference_params :: "json \<Rightarrow> FindReferenceResult Response" where
  "missing_reference_params i =
     Error (Some INVALID_PARAMS) (Some ''Missing tool_call_id or keyword parameter'') NoData i"

definition handleFindReference ::
  "(string \<Rightarrow> string \<Rightarrow> real) \<Rightarrow> cache \<Rightarrow> FindReferenceParams option \<Rightarrow> json \<Rightarrow> FindReferenceResult Response" where
  "handleFindReference jw dataCache params i =
     (case (Option.bind params ref_tool_call_id, Option.bind params keyword) of
        (Some refToolCallId, Some kw) \<Rightarrow>
          if refToolCallId = [] \<or> kw = [] then missing_reference_params i
          else
            (case cache_get dataCache refToolCallId of
               Some (Table hs rs) \<Rightarrow>
                 (case Option.bind params column_name of
                    Some cname \<Rightarrow>
                      if cname = [] then
                        reference_response refToolCallId kw hs rs
                          (scan_table jw refToolCallId kw hs rs) i
                      else
                        (case indexOf hs cname of
                           None \<Rightarrow>
                             Error (Some INVALID_PARAMS)
                               (Some (''Invalid params: column '' @ [CHR 0x27] @ cname @ [CHR 0x27] @ '' not found''))
                               (InvalidColumn cname hs) i
                         | Some colIndex \<Rightarrow>
                             reference_response refToolCallId kw hs rs
                               (scan_column jw refToolCallId kw hs rs colIndex) i)
                  | None \<Rightarrow>
                      reference_response refToolCallId kw hs rs
                        (scan_table jw refToolCallId kw hs rs) i)
             | _ \<Rightarrow>
                 Error (Some DATA_NOT_FOUND)
                   (Some ''Cached data not found or not in table format for the given tool_call_id'')
                   (CacheNotFound refToolCallId (cache_keys dataCache)) i)
      | _ \<Rightarrow> missing_reference_params i)"

subsection \<open>\<open>handleResolvePlaceholders\<close>\<close>

text \<open>
  The replacement text of \<open>s.replace(pattern, replacement)\<close> for a string pattern:
  \<open>$$\<close>, \<open>$&\<close>, \<open>$`\<close> and \<open>$'\<close> are expanded, every other character is copied.
\<close>

fun expand_replacement :: "string \<Rightarrow> string \<Rightarrow> string \<Rightarrow> string \<Rightarrow> string" where
  "expand_replacement matched lhs rhs [] = []"
| "expand_replacement matched lhs rhs [c] = [c]"
| "expand_replacement matched lhs rhs (c # d # r) =
     (if c = CHR ''$'' \<and> d = CHR ''$'' then CHR ''$'' # expand_replacement matched lhs rhs r
      else if c = CHR ''$'' \<and> d = CHR ''&'' then matched @ expand_replacement matched lhs rhs r
      else if c = CHR ''$'' \<and> d = CHR 0x60 then lhs @ expand_replacement matched lhs rhs r
      else if c = CHR ''$'' \<and> d = CHR 0x27 then rhs @ expand_replacement matched lhs rhs r
      else c # expand_replacement matched lhs rhs (d # r))"

text \<open>\<open>s.replace(pat, repl)\<close> for a string pattern: the first occurrence only.\<close>

definition js_replace :: "string \<Rightarrow> string \<Rightarrow> string \<Rightarrow> string" where
  "js_replace s pat repl =
     (case find_sub pat s of
        None \<Rightarrow> s
      | Some k \<Rightarrow>
          take k s @
          expand_replacement pat (take k s) (drop (k + length pat) s) repl @
          drop (k + length pat) s)"

text \<open>
  The counters of \<open>resolutionTracking\<close>. The branches of an array are started one after
  the other and resumed by the scheduler, so the order of the pushes onto
  \<open>failed_placeholders\<close> is a matter of scheduling: the model keeps the pushed strings
  as a multiset. The rounded \<open>success_rate\<close> is a floating-point value and is left out.
\<close>

record ResolutionTracking =
  total_placeholders :: nat
  resolved_placeholders :: nat
  failed_placeholders :: "string multiset"

definition no_tracking :: ResolutionTracking where
  "no_tracking = \<lparr>total_placeholders = 0, resolved_placeholders = 0, failed_placeholders = {#}\<rparr>"

definition add_tracking :: "ResolutionTracking \<Rightarrow> ResolutionTracking \<Rightarrow> ResolutionTracking" where
  "add_tracking a b =
     \<lparr>total_placeholders = total_placeholders a + total_placeholders b,
      resolved_placeholders = resolved_placeholders a + resolved_placeholders b,
      failed_placeholders = failed_placeholders a + failed_placeholders b\<rparr>"

definition sum_tracking :: "ResolutionTracking list \<Rightarrow> ResolutionTracking" where
  "sum_tracking ts = foldr add_tracking ts no_tracking"

text \<open>The captured groups of all matches of \<open>PLACEHOLDER_REGEX\<close>, as \<open>regex.exec\<close> walks them.\<close>

definition placeholder_groups :: "string \<Rightarrow> string list" where
  "placeholder_groups s = scan_matches match_placeholder s"

text \<open>One round of the \<open>while\<close> loop over the matches of the original string.\<close>

definition track_match :: "cache \<Rightarrow> string \<times> ResolutionTracking \<Rightarrow> string \<Rightarrow> string \<times> ResolutionTracking" where
  "track_match c acc ph =
     (let resolution = resolveSinglePlaceholder ph c;
          fullPlaceholder = ''{'' @ ph @ ''}'';
          counted = (snd acc)\<lparr>total_placeholders := total_placeholders (snd acc) + 1\<rparr>
      in if success resolution then
           (js_replace (fst acc) fullPlaceholder (js_String (rvalue resolution)),
            counted\<lparr>resolved_placeholders := resolved_placeholders counted + 1\<rparr>)
         else
           (fst acc,
            counted\<lparr>failed_placeholders := failed_placeholders counted + {#fullPlaceholder#}\<rparr>))"

definition track_string :: "cache \<Rightarrow> string \<Rightarrow> json \<times> ResolutionTracking" where
  "track_string c s =
     (if s = [] then (JStr s, no_tracking)
      else
        (case single_match s of
           Some ph \<Rightarrow>
             (let resolution = resolveSinglePlaceholder ph c
              in if success resolution then
                   (rvalue resolution,
                    \<lparr>total_placeholders = 1, resolved_placeholders = 1, failed_placeholders = {#}\<rparr>)
                 else
                   (JStr s,
                    \<lparr>total_placeholders = 1, resolved_placeholders = 0, failed_placeholders = {#s#}\<rparr>))
         | None \<Rightarrow>
             (case foldl (track_match c) (s, no_tracking) (placeholder_groups s) of
                (resolvedString, t) \<Rightarrow> (JStr resolvedString, t))))"

text \<open>
  The inner \<open>resolveWithTracking\<close> of the endpoint: the resolved value and what the walk
  adds to the counters. Falsy values are returned at once.
\<close>

primrec resolveWithTracking :: "cache \<Rightarrow> json \<Rightarrow> json \<times> ResolutionTracking" where
  "resolveWithTracking c JUndefined = (JUndefined, no_tracking)"
| "resolveWithTracking c JNull = (JNull, no_tracking)"
| "resolveWithTracking c (JBool b) = (JBool b, no_tracking)"
| "resolveWithTracking c (JNum n) = (JNum n, no_tracking)"
| "resolveWithTracking c (JStr s) = track_string c s"
| "resolveWithTracking c (JArr xs) =
     (JArr (map fst (map (resolveWithTracking c) xs)),
      sum_tracking (map snd (map (resolveWithTracking c) xs)))"
| "resolveWithTracking c (JObj kvs) =
     (JObj (map (\<lambda>kv. (fst kv, fst (snd kv))) (map (map_prod id (resolveWithTracking c)) kvs)),
      sum_tracking (map (\<lambda>kv. snd (snd kv)) (map (map_prod id (resolveWithTracking c)) kvs)))"

record ResolveParams =
  data :: json
  resolve_usage_context :: "McppUsageContext option"

record ResolveResult =
  resolved_data :: json
  resolution_status :: ResolutionTracking

definition data_required :: "json \<Rightarrow> ResolveResult Response" where
  "data_required i =
     Error (Some INVALID_PARAMS) (Some ''Invalid params: data is required for placeholder resolution'')
       (RequiredParams [''data'']) i"

text \<open>The successful answer: the walk over \<open>params.data\<close> and its counters.\<close>

definition resolve_answer :: "cache \<Rightarrow> json \<Rightarrow> json \<Rightarrow> ResolveResult Response" where
  "resolve_answer dataCache d i =
     (case resolveWithTracking dataCache d of
        (resolvedData, resolutionTracking) \<Rightarrow>
          Result \<lparr>resolved_data = resolvedData, resolution_status = resolutionTracking\<rparr> i)"

text \<open>
  \<open>handleResolvePlaceholders\<close>: the guard on \<open>params.data\<close>, the validation when a usage
  context and a configuration are given, then the walk. With typed cache entries no
  step of the walk throws, so the \<open>catch\<close> branch is not reached.
\<close>

definition handleResolvePlaceholders ::
  "cache \<Rightarrow> ResolveParams option \<Rightarrow> json \<Rightarrow> Tool option \<Rightarrow> McppServerConfig option \<Rightarrow>
   nat \<Rightarrow> string \<Rightarrow> ResolveResult Response" where
  "handleResolvePlaceholders dataCache params i tool serverConfig now rnd =
     (case params of
        None \<Rightarrow> data_required i
      | Some p \<Rightarrow>
          if \<not> truthy (data p) then data_required i
          else
            (case (resolve_usage_context p, serverConfig) of
               (Some uc, Some cfg) \<Rightarrow>
                 (let validation = validateDataAccess tool uc cfg (data p) now rnd
                  in if \<not> allowed validation then validation_error validation i
                     else resolve_answer dataCache (data p) i)
             | _ \<Rightarrow> resolve_answer dataCache (data p) i))"

section \<open>Example data\<close>

text \<open>The table of the specification's scenarios, cached under \<open>t1\<close>.\<close>

definition t1_table :: CachedData where
  "t1_table = Table [''ID'', ''Name''] [[JStr ''1'', JStr ''Ana''], [JStr ''2'', JStr ''Bo'']]"

definition t1_cache :: cache where
  "t1_cache = [(''t1'', t1_table)]"

text \<open>Every level is denied; every level asks for confirmation.\<close>

fun deny_all :: "DataUsage \<Rightarrow> Permission option" where
  "deny_all u = Some Deny"


text \<open>A sensitive tool whose policy consists of data-usage permissions only.\<close>

definition usage_tool :: "(DataUsage \<Rightarrow> Permission option) \<Rightarrow> Tool" where
  "usage_tool perms =
     \<lparr>name = ''get_contacts'', isSensitive = Some True,
      dataPolicy =
        Some \<lparr>data_usage_permissions = Some perms, target_permissions = None,
              consent_overrides = None\<rparr>\<rparr>"

text \<open>A sensitive tool whose policy consists of a list of blocked targets only.\<close>

definition blocking_tool :: "string list \<Rightarrow> Tool" where
  "blocking_tool blocked =
     \<lparr>name = ''get_contacts'', isSensitive = Some True,
      dataPolicy =
        Some \<lparr>data_usage_permissions = None,
              target_permissions =
                Some \<lparr>allowed_targets = None, blocked_targets = Some blocked,
                      allowed_clients = None, allowed_servers = None, blocked_servers = None\<rparr>,
              consent_overrides = None\<rparr>\<rparr>"

text \<open>A tool that denies every usage level and blocks the target \<open>gpt-4\<close>.\<close>

definition denying_blocking_tool :: Tool where
  "denying_blocking_tool =
     \<lparr>name = ''get_contacts'', isSensitive = Some True,
      dataPolicy =
        Some \<lparr>data_usage_permissions = Some deny_all,
              target_permissions =
                Some \<lparr>allowed_targets = None, blocked_targets = Some [''gpt-4''],
                      allowed_clients = None, allowed_servers = None, blocked_servers = None\<rparr>,
              consent_overrides = None\<rparr>\<rparr>"

definition context_for :: "DataUsage \<Rightarrow> TargetType \<Rightarrow> string \<Rightarrow> McppUsageContext" where
  "context_for u t d =
     \<lparr>data_usage = u,
      requester = \<lparr>host_id = ''host-1'', session_id = None, timestamp = 0\<rparr>,
      target = \<lparr>target_type = t, destination = Some d\<rparr>\<rparr>"

text \<open>Display is denied, every other level is allowed.\<close>

fun display_denied :: "DataUsage \<Rightarrow> Permission option" where
  "display_denied Display = Some Deny"
| "display_denied Process = Some Allow"
| "display_denied Store = Some Allow"
| "display_denied Transfer = Some Allow"

text \<open>A consent state with one pending request and no remembered decision.\<close>

definition pending_state :: ConsentCache where
  "pending_state =
     \<lparr>entries = (\<lambda>k. None), pendingRequests = [''consent_1_abc''], delivered = []\<rparr>"

definition remember_params :: ProvideConsentParams where
  "remember_params =
     \<lparr>consent_request_id = Some ''consent_1_abc'', consent_decision = Some ''allow'',
      remember = JBool True, consent_duration_minutes = JNum 60\<rparr>"

text \<open>Requests for the table \<open>t1\<close>, without and with a usage context.\<close>

definition bare_request :: GetDataParams where
  "bare_request = \<lparr>tool_call_id = Some ''t1'', usage_context = None\<rparr>"

definition display_request :: GetDataParams where
  "display_request =
     \<lparr>tool_call_id = Some ''t1'', usage_context = Some (context_for Display Client ''dash'')\<rparr>"

section \<open>Notions used to state the properties\<close>













text \<open>
  The cells that \<open>find_reference\<close> scans, as pairs of row and column index in scan
  order: row by row and, within a row, in the order of the headers; or the rows of the
  one selected column.
\<close>

definition table_cells :: "string list \<Rightarrow> json list list \<Rightarrow> (nat \<times> nat) list" where
  "table_cells hs rs = concat (map (\<lambda>i. map (\<lambda>j. (i, j)) [0..<length hs]) [0..<length rs])"

definition column_cells :: "json list list \<Rightarrow> nat \<Rightarrow> (nat \<times> nat) list" where
  "column_cells rs k = map (\<lambda>i. (i, k)) [0..<length rs]"

definition scanned_cells :: "string list \<Rightarrow> json list list \<Rightarrow> string option \<Rightarrow> (nat \<times> nat) list" where
  "scanned_cells hs rs col =
     (case col of
        None \<Rightarrow> table_cells hs rs
      | Some cname \<Rightarrow>
          if cname = [] then table_cells hs rs
          else (case indexOf hs cname of Some k \<Rightarrow> column_cells rs k | None \<Rightarrow> []))"

text \<open>The similarity of the keyword and one cell, both in lower case.\<close>

definition cell_similarity ::
  "(string \<Rightarrow> string \<Rightarrow> real) \<Rightarrow> string \<Rightarrow> json list list \<Rightarrow> nat \<times> nat \<Rightarrow> real" where
  "cell_similarity jw kw rs ij =
     jw (toLowerCase kw) (toLowerCase (js_String (cell_at (rs ! fst ij) (snd ij))))"

text \<open>
  The best similarity over the scanned cells, \<open>-1\<close> when none is scanned, and the first
  cell in scan order that reaches it.
\<close>

definition best_similarity ::
  "(string \<Rightarrow> string \<Rightarrow> real) \<Rightarrow> string \<Rightarrow> json list list \<Rightarrow> (nat \<times> nat) list \<Rightarrow> real" where
  "best_similarity jw kw rs cells = Max (insert (- 1) (cell_similarity jw kw rs ` set cells))"

definition first_best ::
  "(string \<Rightarrow> string \<Rightarrow> real) \<Rightarrow> string \<Rightarrow> json list list \<Rightarrow> (nat \<times> nat) list \<Rightarrow> (nat \<times> nat) option" where
  "first_best jw kw rs cells =
     find (\<lambda>ij. cell_similarity jw kw rs ij = best_similarity jw kw rs cells) cells"

text \<open>A stand-in similarity for evaluation: 1 on equal strings, 0 otherwise.\<close>

definition exact_similarity :: "string \<Rightarrow> string \<Rightarrow> real" where
  "exact_similarity a b = (if a = b then 1 else 0)"

text \<open>The table of the reference scenario, with the name repeated in a later row.\<close>

definition names_headers :: "string list" where
  "names_headers = [''Name'', ''Email'']"

definition names_rows :: "json list list" where
  "names_rows =
     [[JStr ''Ana Silva'', JStr ''a@x''], [JStr ''Bo Park'', JStr ''b@y''],
      [JStr ''ana silva'', JStr ''c@z'']]"

definition names_cache :: cache where
  "names_cache = [(''t1'', Table names_headers names_rows)]"

text \<open>What the scan records for a cell whose similarity \<open>s\<close> beats the best so far.\<close>

definition match_entry :: "string \<Rightarrow> string list \<Rightarrow> real \<Rightarrow> nat \<times> nat \<Rightarrow> BestMatch" where
  "match_entry tid hs s ij =
     \<lparr>placeholder = ''{'' @ tid @ ''.'' @ decimal (fst ij) @ ''.'' @ hs ! snd ij @ ''}'',
      similarity = s, rowIndex = int (fst ij), columnName = hs ! snd ij\<rparr>"

section \<open>Properties of the dispatcher and of the policy evaluation\<close>

subsection \<open>\<open>get_data\<close> and the policy gate\<close>

text \<open>
  C1, as stated, fails. A \<open>get_data\<close> request that carries no usage context is answered
  with the cached table although the tool's policy denies every usage level: the
  evaluation, which for a display to a client is not allowed, is never run.
\<close>

theorem C1_get_data_without_context:
  "handleGetData t1_cache (Some bare_request) (JNum 1)
       (Some (usage_tool deny_all)) (Some defaultMcppConfig) 0 ''abc''
     = Result t1_table (JNum 1)
   \<and> \<not> allowed (validateDataAccess (Some (usage_tool deny_all))
                  (context_for Display Client ''dash'') defaultMcppConfig
                  (cached_json t1_table) 0 ''abc'')"
  by (simp add: handleGetData_def bare_request_def t1_cache_def cache_get_def id_or_null_def
      validateDataAccess_def getEffectiveDataUsagePermission_def
      tool_data_usage_permissions_def usage_tool_def context_for_def Let_def)

text \<open>
  C1, amended. For a request on a cached entry that carries a usage context, with a
  server configuration passed by the caller, the cached data is returned when the
  policy evaluation has \<open>allowed = true\<close> and the error of the evaluation otherwise; the
  same request without its usage context is answered with the cached data and no
  evaluation.
\<close>

theorem C1_get_data_gated:
  assumes "tool_call_id params = Some tcid" and "tcid \<noteq> []"
      and "cache_get dataCache tcid = Some d"
      and "usage_context params = Some uc"
  shows "handleGetData dataCache (Some params) i tool (Some cfg) now rnd
           = (if allowed (validateDataAccess tool uc cfg (cached_json d) now rnd)
              then Result d (id_or_null i)
              else validation_error (validateDataAccess tool uc cfg (cached_json d) now rnd) i)
         \<and> handleGetData dataCache (Some (params\<lparr>usage_context := None\<rparr>)) i tool (Some cfg) now rnd
           = Result d (id_or_null i)"
  using assms by (simp add: handleGetData_def Let_def)

theorem C1_get_data_gated_witness:
  "tool_call_id display_request = Some ''t1'' \<and> ''t1'' \<noteq> [] \<and>
   cache_get t1_cache ''t1'' = Some t1_table \<and>
   usage_context display_request = Some (context_for Display Client ''dash'') \<and>
   handleGetData t1_cache (Some display_request) (JNum 1) None (Some defaultMcppConfig) 0 ''abc''
     = Result t1_table (JNum 1)"
proof -
  have h1: "tool_call_id display_request = Some ''t1''"
    by (simp add: display_request_def)
  have h2: "''t1'' \<noteq> []"
    by simp
  have h3: "cache_get t1_cache ''t1'' = Some t1_table"
    by (simp add: cache_get_def t1_cache_def)
  have h4: "usage_context display_request = Some (context_for Display Client ''dash'')"
    by (simp add: display_request_def)
  have ok: "allowed (validateDataAccess None (context_for Display Client ''dash'')
                       defaultMcppConfig (cached_json t1_table) 0 ''abc'')"
    by (simp add: validateDataAccess_def getEffectiveDataUsagePermission_def
        tool_data_usage_permissions_def validateTargetPermissions_def
        tool_target_permissions_def global_target_check_def checkConsentRequired_def
        no_consent_def context_for_def defaultMcppConfig_def Let_def)
  from C1_get_data_gated [OF h1 h2 h3 h4, of "JNum 1" None defaultMcppConfig 0 "''abc''"] ok
  have "handleGetData t1_cache (Some display_request) (JNum 1) None (Some defaultMcppConfig) 0 ''abc''
          = Result t1_table (JNum 1)"
    by (simp add: id_or_null_def)
  with h1 h2 h3 h4 show ?thesis
    by blast
qed

subsection \<open>Data-usage permissions\<close>

text \<open>
  C3, as stated, fails. The tool policy denies \<open>display\<close> and allows the other levels;
  for one and the same target the evaluation at \<open>display\<close> is denied and the evaluation
  at \<open>process\<close> is allowed.
\<close>

theorem C3_display_deny_not_inherited:
  "getEffectiveDataUsagePermission (Some (usage_tool display_denied)) Display defaultMcppConfig = Deny
   \<and> \<not> allowed (validateDataAccess (Some (usage_tool display_denied))
                  (context_for Display Client ''localhost'') defaultMcppConfig
                  (JStr ''{t1.0.Name}'') 0 ''abc'')
   \<and> allowed (validateDataAccess (Some (usage_tool display_denied))
                (context_for Process Client ''localhost'') defaultMcppConfig
                (JStr ''{t1.0.Name}'') 0 ''abc'')"
  by (simp add: validateDataAccess_def getEffectiveDataUsagePermission_def
      tool_data_usage_permissions_def validateTargetPermissions_def
      tool_target_permissions_def global_target_check_def checkConsentRequired_def
      tool_consent_overrides_def destination_consent_check_def
      no_consent_def usage_tool_def context_for_def defaultMcppConfig_def Let_def)

text \<open>
  C3, amended. A deny is read at the requested level only: whenever the effective
  permission at a level (the tool's entry for that level, else the server default) is
  \<open>deny\<close>, the evaluation at that level is denied, for every target.
\<close>

theorem C3_deny_at_requested_level:
  assumes "getEffectiveDataUsagePermission tool level cfg = Deny"
  shows "\<not> allowed (validateDataAccess tool (uc\<lparr>data_usage := level\<rparr>) cfg d now rnd)"
  using assms by (simp add: validateDataAccess_def Let_def)

theorem C3_deny_at_requested_level_witness:
  "getEffectiveDataUsagePermission (Some (usage_tool deny_all)) Store defaultMcppConfig = Deny \<and>
   \<not> allowed (validateDataAccess (Some (usage_tool deny_all))
                ((context_for Display Llm ''claude-3'')\<lparr>data_usage := Store\<rparr>) defaultMcppConfig
                (JStr ''{t1.0.Name}'') 0 ''abc'')"
proof -
  have h: "getEffectiveDataUsagePermission (Some (usage_tool deny_all)) Store defaultMcppConfig = Deny"
    by (simp add: getEffectiveDataUsagePermission_def tool_data_usage_permissions_def usage_tool_def)
  from C3_deny_at_requested_level [OF h] h show ?thesis
    by blast
qed




subsection \<open>Blocked targets\<close>

text \<open>
  C6, as stated, fails. The tool-level target checks are skipped for a falsy
  destination: the empty destination is in the list of blocked targets, and the
  target step and the whole evaluation let it pass. And when the tool also denies the
  requested usage level, the denial of a blocked target carries the message of the
  data-usage step, not the reason of the block.
\<close>

theorem C6_empty_destination_not_blocked:
  "destination (target (context_for Display Client [])) = Some []
   \<and> includes_opt
         (Option.bind (tool_target_permissions (Some (blocking_tool [[]]))) blocked_targets) []
   \<and> target_allowed (validateTargetPermissions (Some (blocking_tool [[]]))
                       (context_for Display Client []) defaultMcppConfig)
   \<and> allowed (validateDataAccess (Some (blocking_tool [[]]))
                (context_for Display Client []) defaultMcppConfig (JStr ''{t1.0.Name}'') 0 ''abc'')
   \<and> error_message (validateDataAccess (Some denying_blocking_tool)
                (context_for Transfer Llm ''gpt-4'') defaultMcppConfig (JStr ''{t1.0.Name}'') 0 ''abc'')
       = Some ''Data usage 'transfer' is not permitted for this tool''"
  by (simp add: validateDataAccess_def getEffectiveDataUsagePermission_def
      tool_data_usage_permissions_def validateTargetPermissions_def
      tool_target_permissions_def global_target_check_def checkConsentRequired_def
      includes_opt_def no_consent_def blocking_tool_def denying_blocking_tool_def
      context_for_def defaultMcppConfig_def Let_def)

text \<open>
  C6, amended. For a non-empty destination in the tool's \<open>blocked_targets\<close> the target
  step denies with reason \<open><type>_blocked_by_tool\<close>, whatever \<open>allowed_targets\<close> holds;
  the evaluation is not allowed with code -32005, and its message carries that
  reason unless the data-usage step, which runs first, has already denied.
\<close>

theorem C6_blocked_target_denied:
  assumes "tool_target_permissions tool = Some policy"
      and "blocked_targets policy = Some blocked"
      and "destination (target uc) = Some dest"
      and "dest \<in> set blocked" and "dest \<noteq> []"
  shows "validateTargetPermissions tool uc cfg =
           \<lparr>target_allowed = False,
            target_reason = type_str (target_type (target uc)) @ ''_blocked_by_tool''\<rparr>
       \<and> \<not> allowed (validateDataAccess tool uc cfg d now rnd)
       \<and> error_code (validateDataAccess tool uc cfg d now rnd) = Some (- 32005)
       \<and> (getEffectiveDataUsagePermission tool (data_usage uc) cfg \<noteq> Deny \<longrightarrow>
            error_message (validateDataAccess tool uc cfg d now rnd) =
              Some (''Target access denied: '' @ type_str (target_type (target uc)) @
                    ''_blocked_by_tool''))"
proof -
  have tv: "validateTargetPermissions tool uc cfg =
           \<lparr>target_allowed = False,
            target_reason = type_str (target_type (target uc)) @ ''_blocked_by_tool''\<rparr>"
    using assms
    by (simp add: validateTargetPermissions_def tool_target_check_def includes_opt_def
        target_denied_def Let_def)
  show ?thesis
    by (simp add: tv validateDataAccess_def Let_def INSUFFICIENT_PERMISSIONS_def)
qed

theorem C6_blocked_target_denied_witness:
  "tool_target_permissions (Some (blocking_tool [''gpt-4''])) =
     Some \<lparr>allowed_targets = None, blocked_targets = Some [''gpt-4''],
           allowed_clients = None, allowed_servers = None, blocked_servers = None\<rparr> \<and>
   destination (target (context_for Transfer Llm ''gpt-4'')) = Some ''gpt-4'' \<and>
   ''gpt-4'' \<in> set [''gpt-4''] \<and> ''gpt-4'' \<noteq> [] \<and>
   getEffectiveDataUsagePermission (Some (blocking_tool [''gpt-4'']))
     (data_usage (context_for Transfer Llm ''gpt-4'')) defaultMcppConfig \<noteq> Deny \<and>
   error_code (validateDataAccess (Some (blocking_tool [''gpt-4'']))
     (context_for Transfer Llm ''gpt-4'') defaultMcppConfig (JStr ''{t1.0.Name}'') 0 ''abc'')
     = Some (- 32005) \<and>
   error_message (validateDataAccess (Some (blocking_tool [''gpt-4'']))
     (context_for Transfer Llm ''gpt-4'') defaultMcppConfig (JStr ''{t1.0.Name}'') 0 ''abc'')
     = Some ''Target access denied: llm_blocked_by_tool''"
proof -
  let ?policy = "\<lparr>allowed_targets = None, blocked_targets = Some [''gpt-4''],
           allowed_clients = None, allowed_servers = None, blocked_servers = None\<rparr>"
  have h1: "tool_target_permissions (Some (blocking_tool [''gpt-4''])) = Some ?policy"
    by (simp add: tool_target_permissions_def blocking_tool_def)
  have h2: "blocked_targets ?policy = Some [''gpt-4'']"
    by simp
  have h3: "destination (target (context_for Transfer Llm ''gpt-4'')) = Some ''gpt-4''"
    by (simp add: context_for_def)
  have h4: "''gpt-4'' \<in> set [''gpt-4'']"
    by simp
  have h5: "''gpt-4'' \<noteq> []"
    by simp
  have h6: "getEffectiveDataUsagePermission (Some (blocking_tool [''gpt-4'']))
     (data_usage (context_for Transfer Llm ''gpt-4'')) defaultMcppConfig \<noteq> Deny"
    by (simp add: getEffectiveDataUsagePermission_def tool_data_usage_permissions_def
        blocking_tool_def context_for_def defaultMcppConfig_def)
  have ty: "type_str (target_type (target (context_for Transfer Llm ''gpt-4''))) = ''llm''"
    by (simp add: context_for_def)
  from C6_blocked_target_denied [OF h1 h2 h3 h4 h5, of defaultMcppConfig "JStr ''{t1.0.Name}''" 0 "''abc''"]
    h6 ty
  have "error_code (validateDataAccess (Some (blocking_tool [''gpt-4'']))
     (context_for Transfer Llm ''gpt-4'') defaultMcppConfig (JStr ''{t1.0.Name}'') 0 ''abc'')
     = Some (- 32005) \<and>
   error_message (validateDataAccess (Some (blocking_tool [''gpt-4'']))
     (context_for Transfer Llm ''gpt-4'') defaultMcppConfig (JStr ''{t1.0.Name}'') 0 ''abc'')
     = Some ''Target access denied: llm_blocked_by_tool''"
    by simp
  with h1 h3 h4 h5 h6 show ?thesis
    by blast
qed

subsection \<open>Consent\<close>

text \<open>
  The decision cache itself works as a write-through store: a recorded decision is
  returned by every lookup of its key up to the expiry.
\<close>

lemma setConsent_getConsent:
  assumes "now \<le> t" and "t \<le> now + minutes * 60 * 1000"
  shows "fst (getConsent cacheKey t (setConsent cacheKey dec minutes host dest usage now st)) = Some dec"
  using assms by (simp add: getConsent_def setConsent_def cleanupExpiredEntries_def expiryTime_def)

text \<open>Whatever the request, \<open>handleProvideConsent\<close> leaves the decision cache as it was.\<close>

lemma handleProvideConsent_entries:
  "entries (snd (handleProvideConsent st params i)) = entries st"
  by (simp add: handleProvideConsent_def resolveConsentRequest_def
      split: option.splits prod.splits)

text \<open>
  C2: the code departs from the claim. With \<open>remember\<close> and \<open>duration_minutes\<close> set, the
  pending request is resolved and the answer says \<open>remembered: true\<close>, yet no decision
  is recorded: the lookup of the key of the original request finds nothing.
\<close>

theorem C2_remember_records_nothing:
  "fst (handleProvideConsent pending_state (Some remember_params) (JNum 7)) =
     Result \<lparr>result_request_id = ''consent_1_abc'', result_decision = ''allow'',
             remembered = JBool True,
             result_message = ''Consent allow recorded successfully''\<rparr> (JNum 7)
   \<and> delivered (snd (handleProvideConsent pending_state (Some remember_params) (JNum 7)))
       = [(''consent_1_abc'', ConsentAllow)]
   \<and> fst (getConsent (generateCacheKey ''host-1'' ''gpt-4'' ''transfer'' None) 1
            (snd (handleProvideConsent pending_state (Some remember_params) (JNum 7)))) = None"
  by (simp add: handleProvideConsent_def resolveConsentRequest_def getConsent_def
      pending_state_def remember_params_def)

subsection \<open>The guard of \<open>resolve_placeholders\<close>\<close>

text \<open>
  C10. The empty string, the number 0, \<open>false\<close> and \<open>null\<close> as \<open>data\<close> are all answered
  with \<open>INVALID_PARAMS\<close> (-32602) and the message that data is required, whatever the
  other arguments; so no such request reaches a \<open>resolved_data\<close> result.
\<close>

theorem C10_falsy_data_rejected:
  assumes "d \<in> {JStr [], JNum 0, JBool False, JNull}"
  shows "handleResolvePlaceholders dataCache (Some \<lparr>data = d, resolve_usage_context = uc\<rparr>)
           i tool serverConfig now rnd
         = Error (Some (- 32602))
             (Some ''Invalid params: data is required for placeholder resolution'')
             (RequiredParams [''data'']) i"
  using assms
  by (auto simp: handleResolvePlaceholders_def data_required_def INVALID_PARAMS_def)

theorem C10_falsy_data_rejected_witness:
  "JNum 0 \<in> {JStr [], JNum 0, JBool False, JNull} \<and>
   handleResolvePlaceholders t1_cache (Some \<lparr>data = JNum 0, resolve_usage_context = None\<rparr>)
       (JNum 1) None (Some defaultMcppConfig) 0 ''abc''
     = Error (Some (- 32602))
         (Some ''Invalid params: data is required for placeholder resolution'')
         (RequiredParams [''data'']) (JNum 1)"
proof -
  have h: "JNum 0 \<in> {JStr [], JNum 0, JBool False, JNull}"
    by simp
  from C10_falsy_data_rejected [OF h] h show ?thesis
    by blast
qed

section \<open>Placeholders\<close>

subsection \<open>The placeholder pattern\<close>

lemma idchar_special [simp]:
  "\<not> idchar CHR ''{''" "\<not> idchar CHR ''}''" "\<not> idchar CHR ''.''"
  by (simp_all add: idchar_def)

lemma is_digit_special [simp]:
  "\<not> is_digit CHR ''{''" "\<not> is_digit CHR ''}''" "\<not> is_digit CHR ''.''"
  "\<not> is_digit CHR ''-''" "\<not> is_digit CHR ''+''"
  by (simp_all add: is_digit_def)









lemma indexOf_NoneD: "indexOf xs x = None \<Longrightarrow> x \<notin> set xs"
  by (induction xs) (auto split: if_splits)





subsection \<open>Resolution of one placeholder\<close>




subsection \<open>Resolving twice\<close>































section \<open>The reference finder\<close>

lemma find_append:
  "find P (xs @ ys) = (case find P xs of None \<Rightarrow> find P ys | Some a \<Rightarrow> Some a)"
  by (induction xs) auto

lemma best_similarity_snoc:
  "best_similarity jw kw rs (cells @ [x]) = max (best_similarity jw kw rs cells) (cell_similarity jw kw rs x)"
proof -
  have "insert (- 1) (cell_similarity jw kw rs ` set (cells @ [x]))
          = insert (cell_similarity jw kw rs x) (insert (- 1) (cell_similarity jw kw rs ` set cells))"
    by auto
  then show ?thesis
    by (simp add: best_similarity_def max.commute)
qed

lemma best_similarity_ge: "ij \<in> set cells \<Longrightarrow> cell_similarity jw kw rs ij \<le> best_similarity jw kw rs cells"
  by (simp add: best_similarity_def)

lemma scan_cells_best:
  "similarity (foldl (scan_cell jw tid kw hs rs) initial_best cells) = best_similarity jw kw rs cells \<and>
   (if - 1 < best_similarity jw kw rs cells
    then \<exists>ij. first_best jw kw rs cells = Some ij \<and>
           foldl (scan_cell jw tid kw hs rs) initial_best cells
             = match_entry tid hs (best_similarity jw kw rs cells) ij
    else foldl (scan_cell jw tid kw hs rs) initial_best cells = initial_best)"
proof (induction cells rule: rev_induct)
  case Nil
  then show ?case by (simp add: best_similarity_def initial_best_def)
next
  case (snoc x cells)
  let ?step = "scan_cell jw tid kw hs rs"
  let ?res = "foldl ?step initial_best cells"
  let ?M = "best_similarity jw kw rs cells"
  let ?s = "cell_similarity jw kw rs x"
  have M': "best_similarity jw kw rs (cells @ [x]) = max ?M ?s"
    by (rule best_similarity_snoc)
  have lo: "- 1 \<le> ?M"
    by (simp add: best_similarity_def)
  from snoc.IH have simres: "similarity ?res = ?M" by simp
  show ?case
  proof (cases "?M < ?s")
    case True
    then have res': "foldl ?step initial_best (cells @ [x]) = match_entry tid hs ?s x"
      by (simp add: scan_cell_def simres cell_similarity_def match_entry_def Let_def)
    have "cell_similarity jw kw rs ij \<noteq> ?s" if "ij \<in> set cells" for ij
      using best_similarity_ge [OF that, of jw kw rs] True by simp
    then have none: "find (\<lambda>ij. cell_similarity jw kw rs ij = ?s) cells = None"
      by (simp add: find_None_iff)
    from True have mx: "max ?M ?s = ?s" by simp
    have "first_best jw kw rs (cells @ [x]) = Some x"
      by (simp add: first_best_def M' mx none find_append)
    with True lo res' show ?thesis
      by (simp add: M' mx match_entry_def)
  next
    case False
    then have res': "foldl ?step initial_best (cells @ [x]) = ?res"
      by (simp add: scan_cell_def simres cell_similarity_def Let_def)
    from False have mx: "max ?M ?s = ?M" by simp
    show ?thesis
    proof (cases "- 1 < ?M")
      case True
      with snoc.IH obtain ij where ij: "first_best jw kw rs cells = Some ij"
        and r: "?res = match_entry tid hs ?M ij"
        by auto
      from ij have "first_best jw kw rs (cells @ [x]) = Some ij"
        by (simp add: first_best_def M' mx find_append)
      with True r res' simres show ?thesis
        by (simp add: M' mx)
    next
      case False
      with snoc.IH res' simres show ?thesis
        by (simp add: M' mx)
    qed
  qed
qed

lemma foldl_nested:
  "foldl (\<lambda>b i. foldl (\<lambda>b j. g b (i, j)) b js) b0 is
     = foldl g b0 (concat (map (\<lambda>i. map (\<lambda>j. (i, j)) js) is))"
  by (induction "is" arbitrary: b0) (simp_all add: foldl_map)

lemma scan_table_cells:
  "scan_table jw tid kw hs rs = foldl (scan_cell jw tid kw hs rs) initial_best (table_cells hs rs)"
  by (simp add: scan_table_def table_cells_def foldl_nested)

lemma scan_column_cells:
  "scan_column jw tid kw hs rs k = foldl (scan_cell jw tid kw hs rs) initial_best (column_cells rs k)"
  by (simp add: scan_column_def column_cells_def foldl_map)



text \<open>
  C9. For a cached table and a keyword (and, if a column is named, one of the headers)
  let the best similarity be the greatest similarity over the scanned cells, or \<open>-1\<close>
  if no cell is scanned. \<open>find_reference\<close> returns a placeholder exactly when the best
  similarity is strictly greater than 0.7; the returned similarity is that maximum and
  the placeholder is that of the first cell in scan order that reaches it. Otherwise
  the answer is \<open>REFERENCE_NOT_FOUND\<close> (-32002) and reports the best similarity. The
  Jaro-Winkler measure is a parameter \<open>jw\<close>.
\<close>

theorem C9_find_reference_best_match:
  assumes "tid \<noteq> []" and "kw \<noteq> []"
      and "cache_get dataCache tid = Some (Table hs rs)"
      and "\<forall>cname. col = Some cname \<and> cname \<noteq> [] \<longrightarrow> cname \<in> set hs"
  shows "if 7 / 10 < best_similarity jw kw rs (scanned_cells hs rs col)
         then \<exists>i j r.
                first_best jw kw rs (scanned_cells hs rs col) = Some (i, j) \<and>
                handleFindReference jw dataCache
                  (Some \<lparr>ref_tool_call_id = Some tid, keyword = Some kw, column_name = col\<rparr>) rid
                  = Result r rid \<and>
                result_placeholder r = ''{'' @ tid @ ''.'' @ decimal i @ ''.'' @ hs ! j @ ''}'' \<and>
                result_similarity r = best_similarity jw kw rs (scanned_cells hs rs col) \<and>
                row_index (metadata r) = int i \<and> meta_column_name (metadata r) = hs ! j
         else handleFindReference jw dataCache
                (Some \<lparr>ref_tool_call_id = Some tid, keyword = Some kw, column_name = col\<rparr>) rid
                = Error (Some (- 32002)) (Some ''No suitable reference found for the given keyword'')
                    (NoReference kw (7 / 10) (best_similarity jw kw rs (scanned_cells hs rs col))
                       (length rs) (length hs)) rid"
proof -
  let ?cells = "scanned_cells hs rs col"
  let ?M = "best_similarity jw kw rs ?cells"
  let ?best = "foldl (scan_cell jw tid kw hs rs) initial_best ?cells"
  have col_ok: "indexOf hs cname \<noteq> None" if "col = Some cname" "cname \<noteq> []" for cname
    using assms(4) that indexOf_NoneD [of hs cname] by auto
  have handler: "handleFindReference jw dataCache
                  (Some \<lparr>ref_tool_call_id = Some tid, keyword = Some kw, column_name = col\<rparr>) rid
                 = reference_response tid kw hs rs ?best rid"
    using assms(1-3) col_ok
    by (auto simp: handleFindReference_def scanned_cells_def scan_table_cells scan_column_cells
        split: option.splits)
  have sim: "similarity ?best = ?M"
    using scan_cells_best [of jw tid kw hs rs ?cells] by simp
  show ?thesis
  proof (cases "7 / 10 < ?M")
    case True
    then have "- 1 < ?M" by simp
    with scan_cells_best [of jw tid kw hs rs ?cells]
    obtain ij where fb: "first_best jw kw rs ?cells = Some ij"
      and best: "?best = match_entry tid hs ?M ij"
      by auto
    obtain i j where ij: "ij = (i, j)" by (cases ij)
    from True show ?thesis
      using fb
      by (simp add: handler reference_response_def SIMILARITY_THRESHOLD_def best match_entry_def ij)
  next
    case False
    then show ?thesis
      by (simp add: handler reference_response_def SIMILARITY_THRESHOLD_def sim
          REFERENCE_NOT_FOUND_def)
  qed
qed


theorem C9_find_reference_best_match_witness:
  "''t1'' \<noteq> [] \<and> ''Ana Silva'' \<noteq> [] \<and>
   cache_get names_cache ''t1'' = Some (Table names_headers names_rows) \<and>
   (\<exists>r. handleFindReference exact_similarity names_cache
           (Some \<lparr>ref_tool_call_id = Some ''t1'', keyword = Some ''Ana Silva'', column_name = None\<rparr>)
           (JNum 3) = Result r (JNum 3) \<and>
        result_placeholder r = ''{t1.0.Name}'' \<and> result_similarity r = 1)"
proof -
  have h1: "''t1'' \<noteq> []" by simp
  have h2: "''Ana Silva'' \<noteq> []" by simp
  have h3: "cache_get names_cache ''t1'' = Some (Table names_headers names_rows)"
    by (simp add: cache_get_def names_cache_def)
  have h4: "\<forall>cname. (None :: string option) = Some cname \<and> cname \<noteq> [] \<longrightarrow> cname \<in> set names_headers"
    by simp
  have cells: "scanned_cells names_headers names_rows None = [(0, 0), (0, 1), (1, 0), (1, 1), (2, 0), (2, 1)]"
    by code_simp
  have sims: "map (cell_similarity exact_similarity ''Ana Silva'' names_rows)
                [(0, 0), (0, 1), (1, 0), (1, 1), (2, 0), (2, 1)] = [1, 0, 0, 0, 1, 0]"
    by (simp add: cell_similarity_def exact_similarity_def names_rows_def cell_at_def
        toLowerCase_def lower_char_def)
  have b: "best_similarity exact_similarity ''Ana Silva'' names_rows
             (scanned_cells names_headers names_rows None) = 1"
    using sims by (simp add: best_similarity_def cells)
  have f: "first_best exact_similarity ''Ana Silva'' names_rows
             (scanned_cells names_headers names_rows None) = Some (0, 0)"
    using sims by (simp add: first_best_def b) (simp add: cells)
  have d: "decimal 0 = ''0''" "names_headers ! 0 = ''Name''"
    by (simp_all add: decimal.simps digit_char_def names_headers_def)
  from C9_find_reference_best_match [OF h1 h2 h3 h4, of exact_similarity "JNum 3"] b f d
  have "\<exists>r. handleFindReference exact_similarity names_cache
           (Some \<lparr>ref_tool_call_id = Some ''t1'', keyword = Some ''Ana Silva'', column_name = None\<rparr>)
           (JNum 3) = Result r (JNum 3) \<and>
        result_placeholder r = ''{t1.0.Name}'' \<and> result_similarity r = 1"
    by auto
  with h1 h2 h3 show ?thesis by blast
qed

end
